theory Spec2Isabelle
  imports Main "HOL-Library.List_Lexorder" "HOL-Library.Char_ord"
begin

section \<open>Python values\<close>

text \<open>
  A Python \<^verbatim>\<open>bytes\<close> value is a list of 8-bit characters. A Python \<^verbatim>\<open>str\<close> is
  represented by its UTF-8 encoding, so \<^verbatim>\<open>len(raw.encode())\<close> is the length of the
  representing list, and the comparison of two \<^verbatim>\<open>str\<close> values (by code point) is the
  lexicographic comparison of the representing lists (UTF-8 keeps the order of code
  points). The order on \<open>string\<close> used below is the lexicographic one built on the
  numeric order of characters.
\<close>

type_synonym bytes = string

definition str_encode :: "string \<Rightarrow> bytes" where
  "str_encode raw = raw"

section \<open>encryption.py: key normalisation\<close>

text \<open>
  \<^verbatim>\<open>
  def _normalize_key(raw: str) -> bytes:
      b = raw.encode()
      if len(b) >= 32:
          return b[:32]
      return (b + b"0" * 32)[:32]
  \<close>
  The padding is the one-byte string \<^verbatim>\<open>b"0"\<close>, the ASCII digit zero (byte 0x30),
  repeated 32 times.
\<close>

definition normalize_key :: "string \<Rightarrow> bytes" where
  "normalize_key raw =
     (let b = str_encode raw
      in if length b \<ge> 32 then take 32 b
         else take 32 (b @ concat (replicate 32 ''0'')))"

text \<open>\<^verbatim>\<open>KEY = _normalize_key(settings.AES_ENCRYPTION_KEY)\<close>, a module-level constant; the
  configured secret is read from the environment and defaults to
  \<^verbatim>\<open>"16byteslongkey!!"\<close>.\<close>

definition default_AES_ENCRYPTION_KEY :: string where
  "default_AES_ENCRYPTION_KEY = ''16byteslongkey!!''"

definition KEY :: "string \<Rightarrow> bytes" where
  "KEY AES_ENCRYPTION_KEY = normalize_key AES_ENCRYPTION_KEY"

section \<open>Exceptions\<close>

text \<open>
  The exceptions the modelled functions raise, as values. \<open>ValueError\<close> carries its
  message (the routers send \<^verbatim>\<open>str(e)\<close> to the caller). A function that can raise returns
  \<open>exn + 'a\<close>, with \<open>Inl\<close> for the exception.
\<close>

datatype exn =
    ValueError string
  | OverflowError
  | IntegrityError
  | AttributeError
  | BinasciiError
  | InvalidTag
  | UnicodeDecodeError

section \<open>datetime\<close>

text \<open>
  A naive \<^verbatim>\<open>datetime\<close> is the number of microseconds since 0001-01-01T00:00:00, the
  smallest value of the type. The largest is 9999-12-31T23:59:59.999999, day number
  3652058, so a datetime \<open>t\<close> satisfies \<open>0 \<le> t < MAXDT\<close>. Adding a \<^verbatim>\<open>timedelta\<close>
  raises \<^verbatim>\<open>OverflowError\<close> when the result leaves that range. Day 0 is a Monday, and
  \<^verbatim>\<open>weekday()\<close> counts Monday as 0.
\<close>

type_synonym datetime = int

definition MAXDT :: int where
  "MAXDT = 3652059 * 86400000000"

definition valid_datetime :: "datetime \<Rightarrow> bool" where
  "valid_datetime t \<longleftrightarrow> 0 \<le> t \<and> t < MAXDT"

definition timedelta_minutes :: "int \<Rightarrow> int" where
  "timedelta_minutes n = n * 60000000"

definition dt_add :: "datetime \<Rightarrow> int \<Rightarrow> exn + datetime" where
  "dt_add t d = (if valid_datetime (t + d) then Inr (t + d) else Inl OverflowError)"

definition dt_sub :: "datetime \<Rightarrow> int \<Rightarrow> exn + datetime" where
  "dt_sub t d = (if valid_datetime (t - d) then Inr (t - d) else Inl OverflowError)"

definition weekday :: "datetime \<Rightarrow> int" where
  "weekday t = (t div 86400000000) mod 7"

definition hour :: "datetime \<Rightarrow> nat" where
  "hour t = nat ((t div 3600000000) mod 24)"

definition minute :: "datetime \<Rightarrow> nat" where
  "minute t = nat ((t div 60000000) mod 60)"

text \<open>\<^verbatim>\<open>strftime("%H:%M")\<close>: two decimal digits, a colon, two decimal digits.\<close>

definition digit_char :: "nat \<Rightarrow> char" where
  "digit_char n = char_of (48 + n)"

definition hhmm :: "nat \<Rightarrow> nat \<Rightarrow> string" where
  "hhmm h m =
     [digit_char (h div 10), digit_char (h mod 10), CHR '':'',
      digit_char (m div 10), digit_char (m mod 10)]"

definition strftime_HM :: "datetime \<Rightarrow> string" where
  "strftime_HM t = hhmm (hour t) (minute t)"

section \<open>models.py: the tables\<close>

text \<open>
  Each table is the list of its rows, with the columns that the functions below read or
  write: \<^verbatim>\<open>created_at\<close>, the surrogate keys of \<^verbatim>\<open>refresh_tokens\<close> and
  \<^verbatim>\<open>doctor_availabilities\<close>, and the name, e-mail and password of a user are left out.
  Of a user's \<^verbatim>\<open>patient_profile\<close> and \<^verbatim>\<open>doctor_profile\<close> the model keeps the \<^verbatim>\<open>id\<close>, or
  \<^verbatim>\<open>None\<close> when the user has no such row.
\<close>

datatype UserRole = PATIENT | DOCTOR | ADMIN

datatype AppointmentStatus = PENDING | APPROVED | REJECTED | CANCELLED

record User =
  user_id :: int
  role :: UserRole
  patient_profile :: "int option"
  doctor_profile :: "int option"

record Appointment =
  appt_id :: int
  appt_patient_id :: int
  appt_doctor_id :: int
  appt_hospital_id :: "int option"
  appt_scheduled_time :: datetime
  appt_status :: AppointmentStatus
  appt_notes :: "string option"

record DoctorAvailability =
  av_doctor_id :: int
  av_day_of_week :: int
  av_start_time :: string
  av_end_time :: string

record RefreshToken =
  rt_user_id :: int
  rt_jti :: string
  rt_expires_at :: datetime
  rt_revoked :: bool

record Session =
  users :: "User list"
  appointments :: "Appointment list"
  doctor_availabilities :: "DoctorAvailability list"
  refresh_tokens :: "RefreshToken list"

text \<open>\<^verbatim>\<open>db.scalar(stmt)\<close>: the first row of the result, or \<^verbatim>\<open>None\<close>.\<close>

definition scalar :: "'a list \<Rightarrow> 'a option" where
  "scalar rows = (case rows of [] \<Rightarrow> None | r # _ \<Rightarrow> Some r)"

section \<open>crud.py: the slot validator\<close>

text \<open>
  \<^verbatim>\<open>if exclude_id:\<close> tests the truth value of an \<^verbatim>\<open>int | None\<close>: it holds for an integer
  other than 0.
\<close>

definition truthy_id :: "int option \<Rightarrow> bool" where
  "truthy_id exclude_id = (case exclude_id of None \<Rightarrow> False | Some e \<Rightarrow> e \<noteq> 0)"

definition not_excluded :: "int option \<Rightarrow> Appointment \<Rightarrow> bool" where
  "not_excluded exclude_id a \<longleftrightarrow> (truthy_id exclude_id \<longrightarrow> Some (appt_id a) \<noteq> exclude_id)"

definition doctor_unavailable :: exn where
  "doctor_unavailable = ValueError ''Doctor not available at this time''"

definition doctor_slot_conflict :: exn where
  "doctor_slot_conflict = ValueError ''Doctor has another appointment in that slot''"

definition patient_slot_conflict :: exn where
  "patient_slot_conflict = ValueError ''Patient has another appointment in that slot''"

definition avail_list :: "Session \<Rightarrow> int \<Rightarrow> int \<Rightarrow> DoctorAvailability list" where
  "avail_list db doctor_id day =
     filter (\<lambda>a. av_doctor_id a = doctor_id \<and> av_day_of_week a = day) (doctor_availabilities db)"

definition stmt_conflict :: "Session \<Rightarrow> int \<Rightarrow> datetime \<Rightarrow> datetime \<Rightarrow> int option \<Rightarrow> Appointment list" where
  "stmt_conflict db doctor_id window_start window_end exclude_id =
     filter (\<lambda>a. appt_doctor_id a = doctor_id \<and> appt_scheduled_time a \<ge> window_start
                 \<and> appt_scheduled_time a \<le> window_end \<and> not_excluded exclude_id a)
       (appointments db)"

definition stmt_p_conflict :: "Session \<Rightarrow> int \<Rightarrow> datetime \<Rightarrow> datetime \<Rightarrow> int option \<Rightarrow> Appointment list" where
  "stmt_p_conflict db patient_id window_start window_end exclude_id =
     filter (\<lambda>a. appt_patient_id a = patient_id \<and> appt_scheduled_time a \<ge> window_start
                 \<and> appt_scheduled_time a \<le> window_end \<and> not_excluded exclude_id a)
       (appointments db)"

text \<open>
  \<^verbatim>\<open>any(a.start_time <= time_str < a.end_time for a in avail_list)\<close>, a comparison of
  \<^verbatim>\<open>str\<close> values, with \<^verbatim>\<open>day = scheduled_time.weekday()\<close> and
  \<^verbatim>\<open>time_str = scheduled_time.strftime("%H:%M")\<close>.
\<close>

definition any_window :: "Session \<Rightarrow> int \<Rightarrow> datetime \<Rightarrow> bool" where
  "any_window db doctor_id scheduled_time =
     (let day = weekday scheduled_time;
          time_str = strftime_HM scheduled_time
      in list_ex (\<lambda>a. av_start_time a \<le> time_str \<and> time_str < av_end_time a)
           (avail_list db doctor_id day))"

definition validate_appointment_slot ::
  "Session \<Rightarrow> int \<Rightarrow> int \<Rightarrow> datetime \<Rightarrow> int option \<Rightarrow> exn + unit" where
  "validate_appointment_slot db doctor_id patient_id scheduled_time exclude_id =
     (if \<not> any_window db doctor_id scheduled_time
         then Inl doctor_unavailable
         else
           (case dt_sub scheduled_time (timedelta_minutes 29) of
              Inl e \<Rightarrow> Inl e
            | Inr window_start \<Rightarrow>
               (case dt_add scheduled_time (timedelta_minutes 29) of
                  Inl e \<Rightarrow> Inl e
                | Inr window_end \<Rightarrow>
                    if scalar (stmt_conflict db doctor_id window_start window_end exclude_id) \<noteq> None
                    then Inl doctor_slot_conflict
                    else if scalar (stmt_p_conflict db patient_id window_start window_end exclude_id) \<noteq> None
                    then Inl patient_slot_conflict
                    else Inr ())))"

section \<open>crud.py: appointments\<close>

text \<open>
  \<^verbatim>\<open>db.get(models.Appointment, appt_id)\<close>: the row with that primary key, or \<^verbatim>\<open>None\<close>.
\<close>

definition get_appointment :: "Session \<Rightarrow> int \<Rightarrow> Appointment option" where
  "get_appointment db aid = scalar (filter (\<lambda>a. appt_id a = aid) (appointments db))"

text \<open>
  \<^verbatim>\<open>db.commit()\<close> after the attributes of the loaded object \<open>appt\<close> were assigned: the row
  with the primary key of \<open>appt\<close> takes the object's values.
\<close>

definition commit_appointment :: "Session \<Rightarrow> Appointment \<Rightarrow> Session" where
  "commit_appointment db appt =
     db\<lparr>appointments := map (\<lambda>r. if appt_id r = appt_id appt then appt else r) (appointments db)\<rparr>"

record AppointmentCreate =
  new_doctor_id :: int
  new_hospital_id :: "int option"
  new_scheduled_time :: datetime

text \<open>
  \<^verbatim>\<open>create_appointment\<close>: the validator runs without an excluded id, then the row is added
  with status \<^verbatim>\<open>PENDING\<close>. The primary key of the new row is chosen by the database and
  is a parameter here.
\<close>

definition create_appointment ::
  "Session \<Rightarrow> int \<Rightarrow> AppointmentCreate \<Rightarrow> int \<Rightarrow> exn + (Appointment \<times> Session)" where
  "create_appointment db patient_id appt_in fresh_id =
     (case validate_appointment_slot db (new_doctor_id appt_in) patient_id (new_scheduled_time appt_in) None of
        Inl e \<Rightarrow> Inl e
      | Inr _ \<Rightarrow>
          (let appt = \<lparr>appt_id = fresh_id, appt_patient_id = patient_id,
                       appt_doctor_id = new_doctor_id appt_in, appt_hospital_id = new_hospital_id appt_in,
                       appt_scheduled_time = new_scheduled_time appt_in, appt_status = PENDING,
                       appt_notes = None\<rparr>
           in Inr (appt, db\<lparr>appointments := appointments db @ [appt]\<rparr>)))"

record AppointmentUpdate =
  upd_scheduled_time :: "datetime option"
  upd_status :: "string option"
  upd_notes :: "string option"

text \<open>
  \<^verbatim>\<open>models.AppointmentStatus(value)\<close>: the member with that value, or \<^verbatim>\<open>ValueError\<close>.
\<close>

definition AppointmentStatus_of :: "string \<Rightarrow> exn + AppointmentStatus" where
  "AppointmentStatus_of v =
     (if v = ''pending'' then Inr PENDING
      else if v = ''approved'' then Inr APPROVED
      else if v = ''rejected'' then Inr REJECTED
      else if v = ''cancelled'' then Inr CANCELLED
      else Inl (ValueError ([CHR 0x27] @ v @ [CHR 0x27] @ '' is not a valid AppointmentStatus'')))"

text \<open>
  \<^verbatim>\<open>
  def update_appointment(db, appt, appt_in):
      if appt_in.scheduled_time is not None:
          _validate_appointment_slot(db, appt.doctor_id, appt.patient_id,
                                     appt_in.scheduled_time, exclude_id=appt.id)
          appt.scheduled_time = appt_in.scheduled_time
      if appt_in.status is not None:
          appt.status = models.AppointmentStatus(appt_in.status)
      if appt_in.notes is not None:
          appt.notes = appt_in.notes
      db.commit()
      db.refresh(appt)
      return appt
  \<close>
  The three assignments are three steps on the object \<open>appt\<close>. When a step raises, the
  result is \<open>Inl (e, appt')\<close>: the exception, and the object as the assignments made before
  the raise left it; nothing was committed. Otherwise the result is the object and the
  session after the commit.
\<close>

definition assign_scheduled_time ::
  "Session \<Rightarrow> Appointment \<Rightarrow> AppointmentUpdate \<Rightarrow> (exn \<times> Appointment) + Appointment" where
  "assign_scheduled_time db appt appt_in =
     (case upd_scheduled_time appt_in of
        None \<Rightarrow> Inr appt
      | Some t \<Rightarrow>
          (case validate_appointment_slot db (appt_doctor_id appt) (appt_patient_id appt) t
                  (Some (appt_id appt)) of
             Inl e \<Rightarrow> Inl (e, appt)
           | Inr _ \<Rightarrow> Inr (appt\<lparr>appt_scheduled_time := t\<rparr>)))"

definition assign_status :: "Appointment \<Rightarrow> AppointmentUpdate \<Rightarrow> (exn \<times> Appointment) + Appointment" where
  "assign_status appt appt_in =
     (case upd_status appt_in of
        None \<Rightarrow> Inr appt
      | Some v \<Rightarrow>
          (case AppointmentStatus_of v of
             Inl e \<Rightarrow> Inl (e, appt)
           | Inr st \<Rightarrow> Inr (appt\<lparr>appt_status := st\<rparr>)))"

definition assign_notes :: "Appointment \<Rightarrow> AppointmentUpdate \<Rightarrow> Appointment" where
  "assign_notes appt appt_in =
     (case upd_notes appt_in of None \<Rightarrow> appt | Some n \<Rightarrow> appt\<lparr>appt_notes := Some n\<rparr>)"

definition update_appointment ::
  "Session \<Rightarrow> Appointment \<Rightarrow> AppointmentUpdate \<Rightarrow> (exn \<times> Appointment) + (Appointment \<times> Session)" where
  "update_appointment db appt appt_in =
     (case assign_scheduled_time db appt appt_in of
        Inl x \<Rightarrow> Inl x
      | Inr appt1 \<Rightarrow>
          (case assign_status appt1 appt_in of
             Inl x \<Rightarrow> Inl x
           | Inr appt2 \<Rightarrow>
               (let appt3 = assign_notes appt2 appt_in
                in Inr (appt3, commit_appointment db appt3))))"

section \<open>routers.py: PATCH /appointments/{appt_id}\<close>

text \<open>
  What a route hands back: the response model, an \<^verbatim>\<open>HTTPException\<close> with its status
  code and detail, or an exception that no handler of the route catches.
\<close>

datatype 'a response = Ok 'a | HTTPException nat string | Unhandled exn

text \<open>\<^verbatim>\<open>if appt_in.status and ...\<close>: a \<^verbatim>\<open>str | None\<close> is true when it is a non-empty string.\<close>

definition truthy_str :: "string option \<Rightarrow> bool" where
  "truthy_str v = (case v of None \<Rightarrow> False | Some s \<Rightarrow> s \<noteq> [])"

text \<open>
  \<^verbatim>\<open>
  if current_user.role == models.UserRole.PATIENT:
      if appt.patient_id != current_user.patient_profile.id:
          raise HTTPException(status_code=403, detail="Forbidden")
      if appt_in.status and appt_in.status not in [models.AppointmentStatus.CANCELLED.value]:
          raise HTTPException(status_code=400, detail="Invalid status change")
  \<close>
  \<^verbatim>\<open>current_user.patient_profile\<close> is \<^verbatim>\<open>None\<close> for a user without a patient row, and
  reading \<^verbatim>\<open>.id\<close> of it raises \<^verbatim>\<open>AttributeError\<close>. The guards return the response that
  ends the request, or \<open>None\<close> to go on.
\<close>

definition patient_guard :: "User \<Rightarrow> Appointment \<Rightarrow> AppointmentUpdate \<Rightarrow> Appointment response option" where
  "patient_guard current_user appt appt_in =
     (if role current_user = PATIENT then
        (case patient_profile current_user of
           None \<Rightarrow> Some (Unhandled AttributeError)
         | Some pid \<Rightarrow>
             if appt_patient_id appt \<noteq> pid then Some (HTTPException 403 ''Forbidden'')
             else if truthy_str (upd_status appt_in) \<and> upd_status appt_in \<noteq> Some ''cancelled''
             then Some (HTTPException 400 ''Invalid status change'')
             else None)
      else None)"

text \<open>
  \<^verbatim>\<open>
  if current_user.role == models.UserRole.DOCTOR and appt.doctor_id != current_user.doctor_profile.id:
      raise HTTPException(status_code=403, detail="Forbidden")
  \<close>
\<close>

definition doctor_guard :: "User \<Rightarrow> Appointment \<Rightarrow> Appointment response option" where
  "doctor_guard current_user appt =
     (if role current_user = DOCTOR then
        (case doctor_profile current_user of
           None \<Rightarrow> Some (Unhandled AttributeError)
         | Some did \<Rightarrow>
             if appt_doctor_id appt \<noteq> did then Some (HTTPException 403 ''Forbidden'') else None)
      else None)"

text \<open>
  The route: \<^verbatim>\<open>except ValueError as e: raise HTTPException(status_code=400, detail=str(e))\<close>
  turns a \<^verbatim>\<open>ValueError\<close> of \<open>update_appointment\<close> into a 400 with the message; any other
  exception is not caught. Every path but the last ends without \<^verbatim>\<open>db.commit()\<close>.

  Modelled from the spec: the session dependency \<^verbatim>\<open>get_db\<close> of \<^verbatim>\<open>app.database\<close> is not
  among the sources; by section 5 of the specification the store is left by "commit-or-
  rollback on every exit path", so a request that ends without a commit leaves the
  tables as they were.
\<close>

definition routers_update_appointment ::
  "Session \<Rightarrow> int \<Rightarrow> AppointmentUpdate \<Rightarrow> User \<Rightarrow> Appointment response \<times> Session" where
  "routers_update_appointment db aid appt_in current_user =
     (case get_appointment db aid of
        None \<Rightarrow> (HTTPException 404 ''Not found'', db)
      | Some appt \<Rightarrow>
          (case patient_guard current_user appt appt_in of
             Some r \<Rightarrow> (r, db)
           | None \<Rightarrow>
              (case doctor_guard current_user appt of
                 Some r \<Rightarrow> (r, db)
               | None \<Rightarrow>
                  (case update_appointment db appt appt_in of
                     Inl (ValueError msg, _) \<Rightarrow> (HTTPException 400 msg, db)
                   | Inl (e, _) \<Rightarrow> (Unhandled e, db)
                   | Inr (appt', db') \<Rightarrow> (Ok appt', db')))))"

section \<open>crud.py: refresh-token records\<close>

text \<open>
  The column \<^verbatim>\<open>jti\<close> is declared \<^verbatim>\<open>unique=True\<close>: adding a row whose \<^verbatim>\<open>jti\<close> is already in
  the table fails with \<^verbatim>\<open>IntegrityError\<close>. A new row has \<^verbatim>\<open>revoked\<close> at its default,
  \<^verbatim>\<open>False\<close>.
\<close>

definition create_refresh_token_record ::
  "Session \<Rightarrow> int \<Rightarrow> string \<Rightarrow> datetime \<Rightarrow> exn + (RefreshToken \<times> Session)" where
  "create_refresh_token_record db uid jti expires_at =
     (if jti \<in> set (map rt_jti (refresh_tokens db)) then Inl IntegrityError
      else
        (let rec = \<lparr>rt_user_id = uid, rt_jti = jti, rt_expires_at = expires_at, rt_revoked = False\<rparr>
         in Inr (rec, db\<lparr>refresh_tokens := refresh_tokens db @ [rec]\<rparr>)))"

text \<open>The first row that satisfies \<open>P\<close> is replaced by its image under \<open>f\<close>: the write of the
  one object that \<^verbatim>\<open>db.scalar\<close> returned.\<close>

fun update_first :: "('a \<Rightarrow> bool) \<Rightarrow> ('a \<Rightarrow> 'a) \<Rightarrow> 'a list \<Rightarrow> 'a list" where
  "update_first P f [] = []"
| "update_first P f (r # rs) = (if P r then f r # rs else r # update_first P f rs)"

text \<open>
  \<^verbatim>\<open>
  def revoke_refresh_token(db, jti):
      rec = db.scalar(select(models.RefreshToken).where(models.RefreshToken.jti == jti))
      if rec and not rec.revoked:
          rec.revoked = True
          db.commit()
  \<close>
\<close>

definition revoke_refresh_token :: "Session \<Rightarrow> string \<Rightarrow> Session" where
  "revoke_refresh_token db jti =
     (case scalar (filter (\<lambda>r. rt_jti r = jti) (refresh_tokens db)) of
        None \<Rightarrow> db
      | Some rec \<Rightarrow>
          if \<not> rt_revoked rec
          then db\<lparr>refresh_tokens :=
                    update_first (\<lambda>r. rt_jti r = jti) (\<lambda>r. r\<lparr>rt_revoked := True\<rparr>) (refresh_tokens db)\<rparr>
          else db)"

text \<open>
  \<^verbatim>\<open>
  def validate_refresh_token(db, jti, user_id) -> bool:
      rec = db.scalar(select(models.RefreshToken).where(
          models.RefreshToken.jti == jti, models.RefreshToken.user_id == user_id))
      if not rec or rec.revoked or rec.expires_at < datetime.utcnow():
          return False
      return True
  \<close>
  The reading of the clock, \<^verbatim>\<open>datetime.utcnow()\<close>, is the parameter \<open>now\<close>.
\<close>

definition validate_refresh_token :: "Session \<Rightarrow> string \<Rightarrow> int \<Rightarrow> datetime \<Rightarrow> bool" where
  "validate_refresh_token db jti uid now =
     (case scalar (filter (\<lambda>r. rt_jti r = jti \<and> rt_user_id r = uid) (refresh_tokens db)) of
        None \<Rightarrow> False
      | Some rec \<Rightarrow> if rt_revoked rec \<or> rt_expires_at rec < now then False else True)"

section \<open>routers.py: POST /auth/refresh\<close>

text \<open>
  The signed token is decoded by the JWT library; the route sees the payload, or
  \<^verbatim>\<open>None\<close> when the signature or the expiry does not check. \<open>tp_sub\<close> is
  \<^verbatim>\<open>int(payload.get("sub"))\<close>; the tokens are written by \<^verbatim>\<open>create_token\<close> with
  \<^verbatim>\<open>str(user.id)\<close> as subject. The new \<^verbatim>\<open>jti\<close> is \<^verbatim>\<open>uuid.uuid4().hex\<close>, a parameter, and so
  are the two readings of the clock. The test
  \<^verbatim>\<open>not user or not jti or not crud.validate_refresh_token(db, jti, user_id)\<close> fails for a
  missing user, a missing or empty \<^verbatim>\<open>jti\<close>, and a record that does not validate.
\<close>

record TokenPayload =
  tp_type :: "string option"
  tp_sub :: int
  tp_jti :: "string option"

definition REFRESH_TOKEN_EXPIRE_MINUTES :: int where
  "REFRESH_TOKEN_EXPIRE_MINUTES = 60 * 24 * 7"

definition get_user :: "Session \<Rightarrow> int \<Rightarrow> User option" where
  "get_user db uid = scalar (filter (\<lambda>u. user_id u = uid) (users db))"

definition refresh_tokens_route ::
  "Session \<Rightarrow> TokenPayload option \<Rightarrow> datetime \<Rightarrow> datetime \<Rightarrow> string \<Rightarrow> string response \<times> Session" where
  "refresh_tokens_route db payload now now' new_jti =
     (case payload of
        None \<Rightarrow> (HTTPException 401 ''Invalid refresh token'', db)
      | Some p \<Rightarrow>
          if tp_type p \<noteq> Some ''refresh'' then (HTTPException 401 ''Invalid refresh token'', db)
          else
            (case tp_jti p of
               None \<Rightarrow> (HTTPException 401 ''Token invalid or revoked'', db)
             | Some jti \<Rightarrow>
                 if get_user db (tp_sub p) = None \<or> jti = []
                    \<or> \<not> validate_refresh_token db jti (tp_sub p) now
                 then (HTTPException 401 ''Token invalid or revoked'', db)
                 else
                   (let db1 = revoke_refresh_token db jti
                    in case dt_add now' (timedelta_minutes REFRESH_TOKEN_EXPIRE_MINUTES) of
                         Inl e \<Rightarrow> (Unhandled e, db1)
                       | Inr expires_at \<Rightarrow>
                           (case create_refresh_token_record db1 (tp_sub p) new_jti expires_at of
                              Inl e \<Rightarrow> (Unhandled e, db1)
                            | Inr (rec, db2) \<Rightarrow> (Ok new_jti, db2)))))"

text \<open>
  The writes to the table of refresh tokens: a record is created (at login and at
  rotation), a record is revoked, a refresh request is served.
\<close>

datatype token_op =
    OpCreate int string datetime
  | OpRevoke string
  | OpRefresh "TokenPayload option" datetime datetime string

fun apply_token_op :: "Session \<Rightarrow> token_op \<Rightarrow> Session" where
  "apply_token_op db (OpCreate uid jti expires_at) =
     (case create_refresh_token_record db uid jti expires_at of Inl _ \<Rightarrow> db | Inr (_, db') \<Rightarrow> db')"
| "apply_token_op db (OpRevoke jti) = revoke_refresh_token db jti"
| "apply_token_op db (OpRefresh payload now now' new_jti) =
     snd (refresh_tokens_route db payload now now' new_jti)"

definition apply_token_ops :: "Session \<Rightarrow> token_op list \<Rightarrow> Session" where
  "apply_token_ops db ops = foldl apply_token_op db ops"

text \<open>The rows that a write leaves: none is removed, none changes its \<open>jti\<close>, and none
  that was revoked stops being so.\<close>

definition rows_kept :: "RefreshToken list \<Rightarrow> RefreshToken list \<Rightarrow> bool" where
  "rows_kept rows rows' \<longleftrightarrow>
     length rows \<le> length rows' \<and>
     (\<forall>i < length rows. rt_jti (rows' ! i) = rt_jti (rows ! i) \<and>
                        (rt_revoked (rows ! i) \<longrightarrow> rt_revoked (rows' ! i)))"

section \<open>encryption.py: encrypt and decrypt\<close>

text \<open>
  The functions of the libraries that \<^verbatim>\<open>encrypt\<close> and \<^verbatim>\<open>decrypt\<close> call are parameters,
  collected in a record: \<^verbatim>\<open>base64.b64encode\<close>, \<^verbatim>\<open>base64.b64decode\<close>,
  \<^verbatim>\<open>AESGCM(key).encrypt(nonce, data, None)\<close>, \<^verbatim>\<open>AESGCM(key).decrypt(nonce, data, None)\<close>
  and \<^verbatim>\<open>bytes.decode()\<close>. Each one that can raise returns \<open>exn + _\<close>. The nonce,
  \<^verbatim>\<open>os.urandom(12)\<close>, is a parameter of \<open>encrypt\<close>.
\<close>

record crypto_lib =
  b64encode :: "bytes \<Rightarrow> bytes"
  b64decode :: "string \<Rightarrow> exn + bytes"
  aesgcm_encrypt :: "bytes \<Rightarrow> bytes \<Rightarrow> bytes \<Rightarrow> exn + bytes"
  aesgcm_decrypt :: "bytes \<Rightarrow> bytes \<Rightarrow> bytes \<Rightarrow> exn + bytes"
  bytes_decode :: "bytes \<Rightarrow> exn + string"

text \<open>
  \<^verbatim>\<open>
  def encrypt(plaintext: str | None) -> str | None:
      if plaintext is None:
          return None
      aesgcm = AESGCM(KEY)
      nonce = os.urandom(12)
      ct = aesgcm.encrypt(nonce, plaintext.encode(), None)
      return base64.b64encode(nonce + ct).decode()
  \<close>
\<close>

definition encrypt :: "crypto_lib \<Rightarrow> bytes \<Rightarrow> bytes \<Rightarrow> string option \<Rightarrow> exn + string option" where
  "encrypt lib key nonce plaintext =
     (case plaintext of
        None \<Rightarrow> Inr None
      | Some p \<Rightarrow>
          (case aesgcm_encrypt lib key nonce (str_encode p) of
             Inl e \<Rightarrow> Inl e
           | Inr ct \<Rightarrow>
               (case bytes_decode lib (b64encode lib (nonce @ ct)) of
                  Inl e \<Rightarrow> Inl e
                | Inr token \<Rightarrow> Inr (Some token))))"

text \<open>
  \<^verbatim>\<open>
  def decrypt(token: str | None) -> str | None:
      if token is None:
          return None
      try:
          raw = base64.b64decode(token)
          nonce, ct = raw[:12], raw[12:]
          aesgcm = AESGCM(KEY)
          pt = aesgcm.decrypt(nonce, ct, None)
          return pt.decode()
      except Exception:
          return None
  \<close>
  \<open>decrypt_try\<close> is the body of the \<^verbatim>\<open>try\<close>; \<open>decrypt\<close> adds the handler.
\<close>

definition decrypt_try :: "crypto_lib \<Rightarrow> bytes \<Rightarrow> string \<Rightarrow> exn + string" where
  "decrypt_try lib key token =
     (case b64decode lib token of
        Inl e \<Rightarrow> Inl e
      | Inr raw \<Rightarrow>
          (let nonce = take 12 raw; ct = drop 12 raw
           in case aesgcm_decrypt lib key nonce ct of
                Inl e \<Rightarrow> Inl e
              | Inr pt \<Rightarrow> bytes_decode lib pt))"

definition decrypt :: "crypto_lib \<Rightarrow> bytes \<Rightarrow> string option \<Rightarrow> exn + string option" where
  "decrypt lib key token =
     (case token of
        None \<Rightarrow> Inr None
      | Some t \<Rightarrow>
          (case decrypt_try lib key t of
             Inl _ \<Rightarrow> Inr None
           | Inr s \<Rightarrow> Inr (Some s)))"

section \<open>Clock times as minutes of the day\<close>

text \<open>
  The specification describes the bounds of an availability window as minutes of the
  day, while the table stores the strings \<^verbatim>\<open>HH:MM\<close>. \<open>clock_minutes\<close> follows the
  specification's reading: the minute of the day that a well-formed string denotes, and
  \<open>None\<close> for any other string. It is not part of the program; it is what the
  comparison of strings in the validator is compared with.
\<close>

definition digit_val :: "char \<Rightarrow> nat option" where
  "digit_val c =
     (if 48 \<le> (of_char c :: nat) \<and> (of_char c :: nat) \<le> 57 then Some (of_char c - 48) else None)"

fun clock_minutes :: "string \<Rightarrow> nat option" where
  "clock_minutes [a, b, c, d, e] =
     (case (digit_val a, digit_val b, digit_val d, digit_val e) of
        (Some h1, Some h2, Some m1, Some m2) \<Rightarrow>
          if c = CHR '':'' \<and> m1 < 6 then Some ((h1 * 10 + h2) * 60 + (m1 * 10 + m2)) else None
      | _ \<Rightarrow> None)"
| "clock_minutes _ = None"

definition minute_of_day :: "datetime \<Rightarrow> nat" where
  "minute_of_day t = hour t * 60 + minute t"

section \<open>An instance of the library interface\<close>

text \<open>
  An executable instance of \<open>crypto_lib\<close>, to run \<open>encrypt\<close> and \<open>decrypt\<close> on concrete
  inputs. Base64 is the encoding of RFC 4648 with padding, decoded strictly; the decoding
  of bytes to text accepts the well-formed UTF-8 sequences of RFC 3629. The cipher is a
  stand-in for AES-GCM, not AES-GCM: the ciphertext is the data followed by a 16-byte tag
  taken from the nonce and the key, and decryption checks the length of the nonce and the
  tag, as the library does before and while it decrypts.
\<close>

definition b64_alphabet :: string where
  "b64_alphabet = ''ABCDEFGHIJKLMNOPQRSTUVWXYZabcdefghijklmnopqrstuvwxyz0123456789+/''"

definition b64_digit :: "nat \<Rightarrow> char" where
  "b64_digit n = b64_alphabet ! n"

fun position :: "'a list \<Rightarrow> 'a \<Rightarrow> nat option" where
  "position [] c = None"
| "position (a # as) c = (if a = c then Some 0 else map_option Suc (position as c))"

definition b64_value :: "char \<Rightarrow> nat option" where
  "b64_value c = position b64_alphabet c"

fun b64_encode_bytes :: "nat list \<Rightarrow> string" where
  "b64_encode_bytes [] = []"
| "b64_encode_bytes [a] =
     [b64_digit (a div 4), b64_digit (a mod 4 * 16), CHR ''='', CHR ''='']"
| "b64_encode_bytes [a, b] =
     [b64_digit (a div 4), b64_digit (a mod 4 * 16 + b div 16), b64_digit (b mod 16 * 4), CHR ''='']"
| "b64_encode_bytes (a # b # c # rest) =
     [b64_digit (a div 4), b64_digit (a mod 4 * 16 + b div 16),
      b64_digit (b mod 16 * 4 + c div 64), b64_digit (c mod 64)] @ b64_encode_bytes rest"

fun b64_decode_chars :: "string \<Rightarrow> nat list option" where
  "b64_decode_chars [] = Some []"
| "b64_decode_chars (c1 # c2 # c3 # c4 # rest) =
     (case (b64_value c1, b64_value c2) of
        (Some x, Some y) \<Rightarrow>
          if rest = [] \<and> c3 = CHR ''='' \<and> c4 = CHR ''='' then Some [x * 4 + y div 16]
          else
            (case b64_value c3 of
               None \<Rightarrow> None
             | Some z \<Rightarrow>
                 if rest = [] \<and> c4 = CHR ''=''
                 then Some [x * 4 + y div 16, y mod 16 * 16 + z div 4]
                 else
                   (case (b64_value c4, b64_decode_chars rest) of
                      (Some w, Some bs) \<Rightarrow>
                        Some ([x * 4 + y div 16, y mod 16 * 16 + z div 4, z mod 4 * 64 + w] @ bs)
                    | _ \<Rightarrow> None))
      | _ \<Rightarrow> None)"
| "b64_decode_chars _ = None"

definition continuation :: "nat \<Rightarrow> bool" where
  "continuation b \<longleftrightarrow> 0x80 \<le> b \<and> b \<le> 0xBF"

fun utf8_valid :: "nat list \<Rightarrow> bool" where
  "utf8_valid [] = True"
| "utf8_valid (a # rest) =
     (if a < 0x80 then utf8_valid rest
      else if 0xC2 \<le> a \<and> a \<le> 0xDF then
        (case rest of b # rest' \<Rightarrow> continuation b \<and> utf8_valid rest' | _ \<Rightarrow> False)
      else if 0xE0 \<le> a \<and> a \<le> 0xEF then
        (case rest of
           b # c # rest' \<Rightarrow>
             continuation b \<and> continuation c \<and> (a = 0xE0 \<longrightarrow> 0xA0 \<le> b) \<and>
             (a = 0xED \<longrightarrow> b \<le> 0x9F) \<and> utf8_valid rest'
         | _ \<Rightarrow> False)
      else if 0xF0 \<le> a \<and> a \<le> 0xF4 then
        (case rest of
           b # c # d # rest' \<Rightarrow>
             continuation b \<and> continuation c \<and> continuation d \<and> (a = 0xF0 \<longrightarrow> 0x90 \<le> b) \<and>
             (a = 0xF4 \<longrightarrow> b \<le> 0x8F) \<and> utf8_valid rest'
         | _ \<Rightarrow> False)
      else False)"

definition sample_tag :: "bytes \<Rightarrow> bytes \<Rightarrow> bytes" where
  "sample_tag key nonce = take 16 (nonce @ key @ replicate 16 (CHR 0x00))"

definition sample_lib :: crypto_lib where
  "sample_lib =
     \<lparr>b64encode = (\<lambda>bs. b64_encode_bytes (map of_char bs)),
      b64decode = (\<lambda>s. case b64_decode_chars s of
                          None \<Rightarrow> Inl BinasciiError
                        | Some ns \<Rightarrow> Inr (map char_of ns)),
      aesgcm_encrypt = (\<lambda>key nonce data. Inr (data @ sample_tag key nonce)),
      aesgcm_decrypt = (\<lambda>key nonce data.
         if length nonce < 8 \<or> length nonce > 128
         then Inl (ValueError ''Nonce must be between 8 and 128 bytes'')
         else if length data \<ge> 16 \<and> drop (length data - 16) data = sample_tag key nonce
         then Inr (take (length data - 16) data) else Inl InvalidTag),
      bytes_decode = (\<lambda>bs. if utf8_valid (map of_char bs) then Inr bs else Inl UnicodeDecodeError)\<rparr>"

text \<open>A nonce of twelve bytes, and a text of two letters whose second letter, an e with
  an acute accent, is the two bytes C3 A9.\<close>

definition sample_nonce :: bytes where
  "sample_nonce = ''0123456789ab''"

definition sample_text :: string where
  "sample_text = [CHR ''h'', CHR 0xC3, CHR 0xA9]"

section \<open>Sample data\<close>

text \<open>
  A session to run the functions on. \<open>datetime_of day h m\<close> is the datetime \<open>h:m\<close> on the day
  with that number; day 739921 is 2026-11-02, a Monday. Doctor 1 receives on Mondays from
  09:00 to 12:00 and from 13:00 to 17:00. Patient 2 has a pending appointment with doctor
  1 on that Monday at 09:30, and patient 3 a cancelled one at 10:30.
\<close>

definition datetime_of :: "int \<Rightarrow> int \<Rightarrow> int \<Rightarrow> datetime" where
  "datetime_of day h m = day * 86400000000 + h * 3600000000 + m * 60000000"

definition example_session :: Session where
  "example_session =
     \<lparr>users =
        [\<lparr>user_id = 10, role = PATIENT, patient_profile = Some 2, doctor_profile = None\<rparr>,
         \<lparr>user_id = 11, role = DOCTOR, patient_profile = None, doctor_profile = Some 1\<rparr>,
         \<lparr>user_id = 12, role = ADMIN, patient_profile = None, doctor_profile = None\<rparr>],
      appointments =
        [\<lparr>appt_id = 1, appt_patient_id = 2, appt_doctor_id = 1, appt_hospital_id = None,
          appt_scheduled_time = datetime_of 739921 9 30, appt_status = PENDING, appt_notes = None\<rparr>,
         \<lparr>appt_id = 2, appt_patient_id = 3, appt_doctor_id = 1, appt_hospital_id = None,
          appt_scheduled_time = datetime_of 739921 10 30, appt_status = CANCELLED, appt_notes = None\<rparr>],
      doctor_availabilities =
        [\<lparr>av_doctor_id = 1, av_day_of_week = 0, av_start_time = ''09:00'', av_end_time = ''12:00''\<rparr>,
         \<lparr>av_doctor_id = 1, av_day_of_week = 0, av_start_time = ''13:00'', av_end_time = ''17:00''\<rparr>],
      refresh_tokens =
        [\<lparr>rt_user_id = 10, rt_jti = ''a1'', rt_expires_at = datetime_of 739928 9 0, rt_revoked = False\<rparr>,
         \<lparr>rt_user_id = 11, rt_jti = ''b2'', rt_expires_at = datetime_of 739900 9 0, rt_revoked = False\<rparr>,
         \<lparr>rt_user_id = 12, rt_jti = ''c3'', rt_expires_at = datetime_of 739928 9 0, rt_revoked = True\<rparr>]\<rparr>"

text \<open>
  Two sessions at the edges of the input types. In the first, doctor 1 receives on
  Fridays all day and has an appointment on 9999-12-31 (day 3652058, a Friday) at 23:45.
  In the second, the only appointment has the primary key 0.
\<close>

definition last_day_session :: Session where
  "last_day_session =
     \<lparr>users = [],
      appointments =
        [\<lparr>appt_id = 1, appt_patient_id = 2, appt_doctor_id = 1, appt_hospital_id = None,
          appt_scheduled_time = datetime_of 3652058 23 45, appt_status = PENDING, appt_notes = None\<rparr>],
      doctor_availabilities =
        [\<lparr>av_doctor_id = 1, av_day_of_week = 4, av_start_time = ''00:00'', av_end_time = ''23:59''\<rparr>],
      refresh_tokens = []\<rparr>"

definition zero_id_session :: Session where
  "zero_id_session =
     \<lparr>users = [],
      appointments =
        [\<lparr>appt_id = 0, appt_patient_id = 2, appt_doctor_id = 1, appt_hospital_id = None,
          appt_scheduled_time = datetime_of 739921 9 30, appt_status = PENDING, appt_notes = None\<rparr>],
      doctor_availabilities =
        [\<lparr>av_doctor_id = 1, av_day_of_week = 0, av_start_time = ''09:00'', av_end_time = ''12:00''\<rparr>],
      refresh_tokens = []\<rparr>"

section \<open>Auxiliary facts\<close>

lemma concat_replicate_single: "concat (replicate n [c]) = replicate n c"
  by (induction n) simp_all

lemma scalar_None_iff: "scalar xs = None \<longleftrightarrow> xs = []"
  by (cases xs) (simp_all add: scalar_def)

lemma scalar_filter_None_iff: "scalar (filter P xs) = None \<longleftrightarrow> (\<forall>x \<in> set xs. \<not> P x)"
  by (simp add: scalar_None_iff filter_empty_conv)

lemma scalar_filter_SomeD: "scalar (filter P xs) = Some x \<Longrightarrow> x \<in> set xs \<and> P x"
proof -
  assume "scalar (filter P xs) = Some x"
  then have "x \<in> set (filter P xs)"
    by (cases "filter P xs") (simp_all add: scalar_def)
  then show ?thesis by simp
qed

lemma reasons_distinct:
  "doctor_unavailable \<noteq> doctor_slot_conflict"
  "doctor_unavailable \<noteq> patient_slot_conflict"
  "doctor_slot_conflict \<noteq> patient_slot_conflict"
  "doctor_slot_conflict \<noteq> doctor_unavailable"
  "patient_slot_conflict \<noteq> doctor_unavailable"
  "patient_slot_conflict \<noteq> doctor_slot_conflict"
  "doctor_unavailable \<noteq> OverflowError"
  "doctor_slot_conflict \<noteq> OverflowError"
  "patient_slot_conflict \<noteq> OverflowError"
  "OverflowError \<noteq> doctor_unavailable"
  "OverflowError \<noteq> doctor_slot_conflict"
  "OverflowError \<noteq> patient_slot_conflict"
  by (simp_all add: doctor_unavailable_def doctor_slot_conflict_def patient_slot_conflict_def)

lemma any_window_iff:
  "any_window db D T \<longleftrightarrow>
     (\<exists>w \<in> set (doctor_availabilities db).
        av_doctor_id w = D \<and> av_day_of_week w = weekday T \<and>
        av_start_time w \<le> strftime_HM T \<and> strftime_HM T < av_end_time w)"
  by (auto simp: any_window_def avail_list_def list_ex_iff Let_def)

lemma validate_unavailable_iff:
  "validate_appointment_slot db D P T ex = Inl doctor_unavailable \<longleftrightarrow> \<not> any_window db D T"
  by (auto simp: validate_appointment_slot_def dt_add_def dt_sub_def reasons_distinct
      split: sum.splits)

text \<open>The validator once the availability check has passed and the window is in range.\<close>

lemma validate_in_range:
  assumes "any_window db D T"
    and "valid_datetime (T - timedelta_minutes 29)" and "valid_datetime (T + timedelta_minutes 29)"
  shows "validate_appointment_slot db D P T ex =
     (if scalar (stmt_conflict db D (T - timedelta_minutes 29) (T + timedelta_minutes 29) ex) \<noteq> None
      then Inl doctor_slot_conflict
      else if scalar (stmt_p_conflict db P (T - timedelta_minutes 29) (T + timedelta_minutes 29) ex) \<noteq> None
      then Inl patient_slot_conflict
      else Inr ())"
  using assms by (simp add: validate_appointment_slot_def dt_add_def dt_sub_def)

lemma not_excluded_iff: "ex \<noteq> Some 0 \<Longrightarrow> not_excluded ex a \<longleftrightarrow> Some (appt_id a) \<noteq> ex"
  by (cases ex) (auto simp: not_excluded_def truthy_id_def)

subsection \<open>The order of clock strings\<close>

lemma lex_step:
  fixes x x' y y' k :: nat
  assumes "y < k" "y' < k"
  shows "(x < x' \<or> x = x' \<and> y < y') \<longleftrightarrow> x * k + y < x' * k + y'"
proof -
  have up: "a * k + b < a' * k + b'" if "a < a'" "b < k" for a a' b b' :: nat
  proof -
    from that(1) have "Suc a * k \<le> a' * k" by (intro mult_le_mono1) simp
    with that(2) show ?thesis by simp
  qed
  consider "x < x'" | "x = x'" | "x' < x" by linarith
  then show ?thesis
  proof cases
    case 1
    with up [OF 1 assms(1)] show ?thesis by simp
  next
    case 2
    then show ?thesis by simp
  next
    case 3
    with up [OF 3 assms(2), of y] show ?thesis by simp
  qed
qed

lemma lex_eq:
  fixes x x' y y' k :: nat
  assumes "y < k" "y' < k"
  shows "(x = x' \<and> y = y') \<longleftrightarrow> x * k + y = x' * k + y'"
  using lex_step [OF assms, of x x'] lex_step [OF assms(2) assms(1), of x' x] by auto

lemma lex_clock:
  fixes h1 h2 m1 m2 k1 k2 n1 n2 :: nat
  assumes "h2 < 10" "m1 < 6" "m2 < 10" "k2 < 10" "n1 < 6" "n2 < 10"
  shows "(h1 < k1 \<or> h1 = k1 \<and> (h2 < k2 \<or> h2 = k2 \<and> (m1 < n1 \<or> m1 = n1 \<and> m2 < n2)))
     \<longleftrightarrow> (h1 * 10 + h2) * 60 + (m1 * 10 + m2) < (k1 * 10 + k2) * 60 + (n1 * 10 + n2)"
proof -
  have M: "m1 * 10 + m2 < 60" "n1 * 10 + n2 < 60" using assms by simp_all
  have "(h1 < k1 \<or> h1 = k1 \<and> (h2 < k2 \<or> h2 = k2 \<and> (m1 < n1 \<or> m1 = n1 \<and> m2 < n2)))
    \<longleftrightarrow> ((h1 < k1 \<or> h1 = k1 \<and> h2 < k2) \<or> (h1 = k1 \<and> h2 = k2) \<and> (m1 < n1 \<or> m1 = n1 \<and> m2 < n2))"
    by blast
  also have "\<dots> \<longleftrightarrow> (h1 * 10 + h2 < k1 * 10 + k2 \<or>
      h1 * 10 + h2 = k1 * 10 + k2 \<and> m1 * 10 + m2 < n1 * 10 + n2)"
    by (simp only: lex_step [OF assms(1) assms(4)] lex_eq [OF assms(1) assms(4)]
        lex_step [OF assms(3) assms(6)])
  also have "\<dots> \<longleftrightarrow> (h1 * 10 + h2) * 60 + (m1 * 10 + m2) < (k1 * 10 + k2) * 60 + (n1 * 10 + n2)"
    by (rule lex_step [OF M])
  finally show ?thesis .
qed

lemma digit_val_digit_char: "n < 10 \<Longrightarrow> digit_val (digit_char n) = Some n"
  by (simp add: digit_val_def digit_char_def of_char_of)

lemma digit_val_SomeD: "digit_val c = Some n \<Longrightarrow> c = digit_char n \<and> n < 10"
proof -
  assume a: "digit_val c = Some n"
  then have n: "(of_char c :: nat) = 48 + n" "n < 10"
    by (auto simp: digit_val_def split: if_splits)
  have "char_of (of_char c :: nat) = c" by simp
  with n show ?thesis by (simp only: digit_char_def)
qed

lemma digit_less: "a < 10 \<Longrightarrow> b < 10 \<Longrightarrow> digit_char a < digit_char b \<longleftrightarrow> a < b"
  by (simp add: less_char_def of_char_of digit_char_def)

lemma digit_eq: "a < 10 \<Longrightarrow> b < 10 \<Longrightarrow> digit_char a = digit_char b \<longleftrightarrow> a = b"
proof
  assume a: "a < 10" and b: "b < 10" and e: "digit_char a = digit_char b"
  have "Some a = digit_val (digit_char a)" using a by (simp only: digit_val_digit_char)
  also have "\<dots> = digit_val (digit_char b)" by (simp only: e)
  also have "\<dots> = Some b" using b by (simp only: digit_val_digit_char)
  finally show "a = b" by simp
qed simp

lemma clock_minutes_hhmm: "h < 100 \<Longrightarrow> m < 60 \<Longrightarrow> clock_minutes (hhmm h m) = Some (h * 60 + m)"
proof -
  assume h: "h < 100" and m: "m < 60"
  have d: "h div 10 < 10" "h mod 10 < 10" "m div 10 < 6" "m mod 10 < 10" "m div 10 < 10"
    using h m by simp_all
  have e: "h div 10 * 10 + h mod 10 = h" "m div 10 * 10 + m mod 10 = m" by simp_all
  show ?thesis
    unfolding hhmm_def
    by (simp add: digit_val_digit_char d e del: div_mult_mod_eq)
qed

lemma clock_minutes_strftime: "clock_minutes (strftime_HM T) = Some (minute_of_day T)"
proof -
  have "hour T < 100" "minute T < 60" by (simp_all add: hour_def minute_def)
  then show ?thesis
    unfolding strftime_HM_def minute_of_day_def by (rule clock_minutes_hhmm)
qed

lemma clock_minutes_SomeD:
  assumes "clock_minutes s = Some n"
  obtains h1 h2 m1 m2 where
    "s = [digit_char h1, digit_char h2, CHR '':'', digit_char m1, digit_char m2]"
    "h1 < 10" "h2 < 10" "m1 < 6" "m2 < 10" "n = (h1 * 10 + h2) * 60 + (m1 * 10 + m2)"
proof -
  from assms obtain a b c d e where s: "s = [a, b, c, d, e]"
    by (rule clock_minutes.elims) simp_all
  from assms [unfolded s] obtain h1 h2 m1 m2 where
    d: "digit_val a = Some h1" "digit_val b = Some h2" "digit_val d = Some m1" "digit_val e = Some m2"
    and c: "c = CHR '':''" "m1 < 6" and n: "n = (h1 * 10 + h2) * 60 + (m1 * 10 + m2)"
    by (auto split: option.splits if_splits)
  show thesis
    using that [of h1 h2 m1 m2] s c n digit_val_SomeD [OF d(1)] digit_val_SomeD [OF d(2)]
      digit_val_SomeD [OF d(3)] digit_val_SomeD [OF d(4)]
    by simp
qed

lemma clock_minutes_less:
  assumes "clock_minutes s = Some a" "clock_minutes t = Some b"
  shows "s < t \<longleftrightarrow> a < b"
proof -
  from assms(1) obtain h1 h2 m1 m2 where
    s: "s = [digit_char h1, digit_char h2, CHR '':'', digit_char m1, digit_char m2]"
    and bs: "h1 < 10" "h2 < 10" "m1 < 6" "m2 < 10" and a: "a = (h1 * 10 + h2) * 60 + (m1 * 10 + m2)"
    by (rule clock_minutes_SomeD)
  from assms(2) obtain k1 k2 n1 n2 where
    t: "t = [digit_char k1, digit_char k2, CHR '':'', digit_char n1, digit_char n2]"
    and bt: "k1 < 10" "k2 < 10" "n1 < 6" "n2 < 10" and b: "b = (k1 * 10 + k2) * 60 + (n1 * 10 + n2)"
    by (rule clock_minutes_SomeD)
  have m: "m1 < 10" "n1 < 10" using bs bt by simp_all
  have "s < t \<longleftrightarrow> h1 < k1 \<or> h1 = k1 \<and> (h2 < k2 \<or> h2 = k2 \<and> (m1 < n1 \<or> m1 = n1 \<and> m2 < n2))"
    unfolding s t using bs bt m by (simp add: digit_less digit_eq)
  also have "\<dots> \<longleftrightarrow> a < b"
    unfolding a b by (rule lex_clock [OF bs(2-4) bt(2-4)])
  finally show ?thesis .
qed

lemma clock_minutes_le:
  assumes "clock_minutes s = Some a" "clock_minutes t = Some b"
  shows "s \<le> t \<longleftrightarrow> a \<le> b"
proof -
  have "s \<le> t \<longleftrightarrow> \<not> t < s" by (simp add: not_less)
  also have "\<dots> \<longleftrightarrow> \<not> b < a" by (simp only: clock_minutes_less [OF assms(2) assms(1)])
  finally show ?thesis by (simp add: not_less)
qed

section \<open>Claims\<close>

subsection \<open>C10: the derived key\<close>

text \<open>
  C10, as the specification states it: the derived key has 32 bytes, it is the first 32
  bytes of the encoded secret when that has at least 32 bytes, and otherwise the encoded
  secret "zero-padded" to 32 bytes. Read as padding with the zero byte this fails: for
  the default secret, 16 bytes long, the key ends in sixteen bytes 0x30 (the digit
  \<^verbatim>\<open>0\<close>) and not in sixteen bytes 0x00.
\<close>

theorem normalize_key_zero_byte_counterexample:
  "normalize_key default_AES_ENCRYPTION_KEY
     \<noteq> str_encode default_AES_ENCRYPTION_KEY
         @ replicate (32 - length (str_encode default_AES_ENCRYPTION_KEY)) (CHR 0x00)"
  by (simp add: normalize_key_def default_AES_ENCRYPTION_KEY_def str_encode_def eval_nat_numeral)

text \<open>
  C10, amended: for every secret the derived key has exactly 32 bytes; when the UTF-8
  encoding of the secret has at least 32 bytes the key is its first 32 bytes, otherwise
  the key is the encoding followed by as many bytes 0x30 (the ASCII digit \<^verbatim>\<open>0\<close>) as are
  missing to 32; \<open>KEY\<close> is that function applied to the configured secret.
\<close>

theorem normalize_key_spec:
  "length (normalize_key raw) = 32 \<and>
   (length (str_encode raw) \<ge> 32 \<longrightarrow> normalize_key raw = take 32 (str_encode raw)) \<and>
   (length (str_encode raw) < 32 \<longrightarrow>
      normalize_key raw = str_encode raw @ replicate (32 - length (str_encode raw)) (CHR ''0'')) \<and>
   KEY raw = normalize_key raw"
  by (auto simp: normalize_key_def KEY_def Let_def concat_replicate_single)

theorem normalize_key_spec_witness:
  "length (str_encode ''16byteslongkey!!'') < 32 \<and>
   normalize_key ''16byteslongkey!!'' = ''16byteslongkey!!0000000000000000'' \<and>
   length (str_encode ''0123456789abcdef0123456789abcdef-and-more'') \<ge> 32 \<and>
   normalize_key ''0123456789abcdef0123456789abcdef-and-more'' = ''0123456789abcdef0123456789abcdef''"
  using normalize_key_spec [of "''16byteslongkey!!''"]
    normalize_key_spec [of "''0123456789abcdef0123456789abcdef-and-more''"]
  by (simp add: str_encode_def eval_nat_numeral)

subsection \<open>C2: the availability check\<close>

text \<open>
  C2: for every doctor \<open>D\<close> and scheduled time \<open>T\<close> the validator rejects with
  \<open>doctor_unavailable\<close> exactly when no availability window of \<open>D\<close> for the weekday of \<open>T\<close>
  satisfies \<open>start_time \<le> time < end_time\<close>, the start included and the end excluded,
  where the time is the wall-clock time of \<open>T\<close> as \<^verbatim>\<open>HH:MM\<close>; several windows are
  alternatives; with no window that day the result is the same rejection. The
  comparison is the one of strings that the program makes. When the bounds of the
  doctor's windows of that day are well-formed \<^verbatim>\<open>HH:MM\<close> strings, it agrees with the
  comparison of minutes of the day.
\<close>

theorem doctor_unavailable_iff_no_window:
  "(validate_appointment_slot db D P T ex = Inl doctor_unavailable \<longleftrightarrow>
      \<not> (\<exists>w \<in> set (doctor_availabilities db).
            av_doctor_id w = D \<and> av_day_of_week w = weekday T \<and>
            av_start_time w \<le> strftime_HM T \<and> strftime_HM T < av_end_time w)) \<and>
   ((\<forall>w \<in> set (doctor_availabilities db).
        av_doctor_id w = D \<and> av_day_of_week w = weekday T \<longrightarrow>
        clock_minutes (av_start_time w) \<noteq> None \<and> clock_minutes (av_end_time w) \<noteq> None) \<longrightarrow>
    (validate_appointment_slot db D P T ex = Inl doctor_unavailable \<longleftrightarrow>
      \<not> (\<exists>w \<in> set (doctor_availabilities db). \<exists>s e.
            av_doctor_id w = D \<and> av_day_of_week w = weekday T \<and>
            clock_minutes (av_start_time w) = Some s \<and> clock_minutes (av_end_time w) = Some e \<and>
            s \<le> minute_of_day T \<and> minute_of_day T < e))) \<and>
   ((\<forall>w \<in> set (doctor_availabilities db). \<not> (av_doctor_id w = D \<and> av_day_of_week w = weekday T)) \<longrightarrow>
    validate_appointment_slot db D P T ex = Inl doctor_unavailable)"
proof (intro conjI impI)
  show strings: "validate_appointment_slot db D P T ex = Inl doctor_unavailable \<longleftrightarrow>
      \<not> (\<exists>w \<in> set (doctor_availabilities db).
            av_doctor_id w = D \<and> av_day_of_week w = weekday T \<and>
            av_start_time w \<le> strftime_HM T \<and> strftime_HM T < av_end_time w)"
    by (simp only: validate_unavailable_iff any_window_iff)
  show "validate_appointment_slot db D P T ex = Inl doctor_unavailable"
    if "\<forall>w \<in> set (doctor_availabilities db). \<not> (av_doctor_id w = D \<and> av_day_of_week w = weekday T)"
    using that unfolding strings by blast
  show "validate_appointment_slot db D P T ex = Inl doctor_unavailable \<longleftrightarrow>
      \<not> (\<exists>w \<in> set (doctor_availabilities db). \<exists>s e.
            av_doctor_id w = D \<and> av_day_of_week w = weekday T \<and>
            clock_minutes (av_start_time w) = Some s \<and> clock_minutes (av_end_time w) = Some e \<and>
            s \<le> minute_of_day T \<and> minute_of_day T < e)"
    if wf: "\<forall>w \<in> set (doctor_availabilities db).
        av_doctor_id w = D \<and> av_day_of_week w = weekday T \<longrightarrow>
        clock_minutes (av_start_time w) \<noteq> None \<and> clock_minutes (av_end_time w) \<noteq> None"
  proof -
    have "(av_start_time w \<le> strftime_HM T \<and> strftime_HM T < av_end_time w) \<longleftrightarrow>
        (\<exists>s e. clock_minutes (av_start_time w) = Some s \<and> clock_minutes (av_end_time w) = Some e \<and>
               s \<le> minute_of_day T \<and> minute_of_day T < e)"
      if w: "w \<in> set (doctor_availabilities db)" "av_doctor_id w = D" "av_day_of_week w = weekday T"
      for w
    proof -
      from wf w obtain s e where
        se: "clock_minutes (av_start_time w) = Some s" "clock_minutes (av_end_time w) = Some e"
        by auto
      show ?thesis
        by (simp add: se clock_minutes_le [OF se(1) clock_minutes_strftime]
            clock_minutes_less [OF clock_minutes_strftime se(2)])
    qed
    then show ?thesis unfolding strings by blast
  qed
qed

text \<open>
  On the sample session: Monday 17:00 is outside (the end is excluded), Monday 09:00 is
  inside (the start is included), Monday 12:30 lies between the two windows, and on
  Tuesday the doctor has no window.
\<close>

theorem doctor_unavailable_iff_no_window_witness:
  "validate_appointment_slot example_session 1 2 (datetime_of 739921 17 0) None = Inl doctor_unavailable \<and>
   validate_appointment_slot example_session 1 2 (datetime_of 739921 9 0) None \<noteq> Inl doctor_unavailable \<and>
   validate_appointment_slot example_session 1 2 (datetime_of 739921 12 30) None = Inl doctor_unavailable \<and>
   validate_appointment_slot example_session 1 2 (datetime_of 739922 12 0) None = Inl doctor_unavailable"
proof -
  note th = doctor_unavailable_iff_no_window [of example_session 1 2 _ None]
  have wf: "\<forall>w \<in> set (doctor_availabilities example_session).
      av_doctor_id w = 1 \<and> av_day_of_week w = weekday T \<longrightarrow>
      clock_minutes (av_start_time w) \<noteq> None \<and> clock_minutes (av_end_time w) \<noteq> None" for T
    by (simp add: example_session_def digit_val_def)
  have "\<not> (\<exists>w \<in> set (doctor_availabilities example_session).
          av_doctor_id w = 1 \<and> av_day_of_week w = weekday (datetime_of 739921 17 0) \<and>
          av_start_time w \<le> strftime_HM (datetime_of 739921 17 0) \<and>
          strftime_HM (datetime_of 739921 17 0) < av_end_time w)"
    by code_simp
  with th [of "datetime_of 739921 17 0"]
  have a: "validate_appointment_slot example_session 1 2 (datetime_of 739921 17 0) None
      = Inl doctor_unavailable"
    by blast
  have "\<exists>w \<in> set (doctor_availabilities example_session). \<exists>s e.
          av_doctor_id w = 1 \<and> av_day_of_week w = weekday (datetime_of 739921 9 0) \<and>
          clock_minutes (av_start_time w) = Some s \<and> clock_minutes (av_end_time w) = Some e \<and>
          s \<le> minute_of_day (datetime_of 739921 9 0) \<and> minute_of_day (datetime_of 739921 9 0) < e"
  proof (intro bexI exI conjI)
    show "\<lparr>av_doctor_id = 1, av_day_of_week = 0, av_start_time = ''09:00'', av_end_time = ''12:00''\<rparr>
        \<in> set (doctor_availabilities example_session)"
      by (simp add: example_session_def)
    show "clock_minutes (av_start_time
        \<lparr>av_doctor_id = 1, av_day_of_week = 0, av_start_time = ''09:00'', av_end_time = ''12:00''\<rparr>)
        = Some 540"
      by code_simp
    show "clock_minutes (av_end_time
        \<lparr>av_doctor_id = 1, av_day_of_week = 0, av_start_time = ''09:00'', av_end_time = ''12:00''\<rparr>)
        = Some 720"
      by code_simp
    show "540 \<le> minute_of_day (datetime_of 739921 9 0)" by code_simp
    show "minute_of_day (datetime_of 739921 9 0) < 720" by code_simp
    show "av_day_of_week
        \<lparr>av_doctor_id = 1, av_day_of_week = 0, av_start_time = ''09:00'', av_end_time = ''12:00''\<rparr>
        = weekday (datetime_of 739921 9 0)"
      by code_simp
  qed simp
  with th [of "datetime_of 739921 9 0"] wf [of "datetime_of 739921 9 0"]
  have b: "validate_appointment_slot example_session 1 2 (datetime_of 739921 9 0) None
      \<noteq> Inl doctor_unavailable"
    by blast
  have "\<not> (\<exists>w \<in> set (doctor_availabilities example_session).
          av_doctor_id w = 1 \<and> av_day_of_week w = weekday (datetime_of 739921 12 30) \<and>
          av_start_time w \<le> strftime_HM (datetime_of 739921 12 30) \<and>
          strftime_HM (datetime_of 739921 12 30) < av_end_time w)"
    by code_simp
  with th [of "datetime_of 739921 12 30"]
  have c: "validate_appointment_slot example_session 1 2 (datetime_of 739921 12 30) None
      = Inl doctor_unavailable"
    by blast
  have "\<forall>w \<in> set (doctor_availabilities example_session).
          \<not> (av_doctor_id w = 1 \<and> av_day_of_week w = weekday (datetime_of 739922 12 0))"
    by code_simp
  with th [of "datetime_of 739922 12 0"]
  have d: "validate_appointment_slot example_session 1 2 (datetime_of 739922 12 0) None
      = Inl doctor_unavailable"
    by blast
  from a b c d show ?thesis by simp
qed

subsection \<open>C1: the slot scans\<close>

text \<open>
  C1, as the specification states it: for every request that passes the availability
  check, the validator rejects with \<open>doctor_slot_conflict\<close> exactly when the doctor has an
  appointment, other than the excluded one when an id is supplied, whose time lies in
  \<open>[T - 29 min, T + 29 min]\<close>. Two inputs refute this. On 9999-12-31 at 23:45 the doctor
  is available and has an appointment at that very time, yet the validator does not
  answer \<open>doctor_slot_conflict\<close>: \<open>T + 29 min\<close> is not a datetime and the addition raises
  \<^verbatim>\<open>OverflowError\<close>. And with the excluded id 0 supplied, the appointment with the id 0,
  the only one of the doctor, is not excluded: the validator answers
  \<open>doctor_slot_conflict\<close>.
\<close>

theorem slot_conflict_counterexample:
  "validate_appointment_slot last_day_session 1 3 (datetime_of 3652058 23 45) None = Inl OverflowError \<and>
   validate_appointment_slot last_day_session 1 3 (datetime_of 3652058 23 45) None \<noteq> Inl doctor_unavailable \<and>
   map appt_doctor_id (appointments last_day_session) = [1] \<and>
   map appt_scheduled_time (appointments last_day_session) = [datetime_of 3652058 23 45] \<and>
   validate_appointment_slot zero_id_session 1 2 (datetime_of 739921 9 30) (Some 0) = Inl doctor_slot_conflict \<and>
   map appt_id (appointments zero_id_session) = [0]"
  by code_simp

text \<open>
  C1, amended: for every request at a time \<open>T\<close> such that \<open>T - 29 min\<close> and \<open>T + 29 min\<close> are
  datetimes, with no excluded id or one other than 0, that passes the availability
  check: the validator rejects with \<open>doctor_slot_conflict\<close> exactly when the doctor has an
  appointment, of any status and other than the excluded one, whose time lies in the
  closed interval \<open>[T - 29 min, T + 29 min]\<close>; it rejects with \<open>patient_slot_conflict\<close>
  exactly when the doctor has none and the patient has one; and it accepts when every
  other appointment of the doctor and of the patient is at least 30 minutes away.
\<close>

theorem slot_conflict_window:
  assumes "validate_appointment_slot db D P T ex \<noteq> Inl doctor_unavailable"
    and "valid_datetime (T - timedelta_minutes 29)"
    and "valid_datetime (T + timedelta_minutes 29)"
    and "ex \<noteq> Some 0"
  shows
    "(validate_appointment_slot db D P T ex = Inl doctor_slot_conflict \<longleftrightarrow>
        (\<exists>a \<in> set (appointments db).
            appt_doctor_id a = D \<and> Some (appt_id a) \<noteq> ex \<and>
            T - timedelta_minutes 29 \<le> appt_scheduled_time a \<and>
            appt_scheduled_time a \<le> T + timedelta_minutes 29)) \<and>
     (validate_appointment_slot db D P T ex = Inl patient_slot_conflict \<longleftrightarrow>
        \<not> (\<exists>a \<in> set (appointments db).
            appt_doctor_id a = D \<and> Some (appt_id a) \<noteq> ex \<and>
            T - timedelta_minutes 29 \<le> appt_scheduled_time a \<and>
            appt_scheduled_time a \<le> T + timedelta_minutes 29) \<and>
        (\<exists>a \<in> set (appointments db).
            appt_patient_id a = P \<and> Some (appt_id a) \<noteq> ex \<and>
            T - timedelta_minutes 29 \<le> appt_scheduled_time a \<and>
            appt_scheduled_time a \<le> T + timedelta_minutes 29)) \<and>
     ((\<forall>a \<in> set (appointments db).
          (appt_doctor_id a = D \<or> appt_patient_id a = P) \<and> Some (appt_id a) \<noteq> ex \<longrightarrow>
          timedelta_minutes 30 \<le> \<bar>appt_scheduled_time a - T\<bar>) \<longrightarrow>
        validate_appointment_slot db D P T ex = Inr ())"
proof -
  from assms(1) have av: "any_window db D T"
    by (simp add: validate_unavailable_iff)
  note v = validate_in_range [OF av assms(2) assms(3), of P ex]
  have doc: "scalar (stmt_conflict db D (T - timedelta_minutes 29) (T + timedelta_minutes 29) ex) \<noteq> None
      \<longleftrightarrow> (\<exists>a \<in> set (appointments db).
            appt_doctor_id a = D \<and> Some (appt_id a) \<noteq> ex \<and>
            T - timedelta_minutes 29 \<le> appt_scheduled_time a \<and>
            appt_scheduled_time a \<le> T + timedelta_minutes 29)"
    unfolding stmt_conflict_def scalar_filter_None_iff
    by (auto simp: not_excluded_iff [OF assms(4)])
  have pat: "scalar (stmt_p_conflict db P (T - timedelta_minutes 29) (T + timedelta_minutes 29) ex) \<noteq> None
      \<longleftrightarrow> (\<exists>a \<in> set (appointments db).
            appt_patient_id a = P \<and> Some (appt_id a) \<noteq> ex \<and>
            T - timedelta_minutes 29 \<le> appt_scheduled_time a \<and>
            appt_scheduled_time a \<le> T + timedelta_minutes 29)"
    unfolding stmt_p_conflict_def scalar_filter_None_iff
    by (auto simp: not_excluded_iff [OF assms(4)])
  have first: "validate_appointment_slot db D P T ex = Inl doctor_slot_conflict \<longleftrightarrow>
      scalar (stmt_conflict db D (T - timedelta_minutes 29) (T + timedelta_minutes 29) ex) \<noteq> None"
    unfolding v by (simp add: reasons_distinct)
  have second: "validate_appointment_slot db D P T ex = Inl patient_slot_conflict \<longleftrightarrow>
      scalar (stmt_conflict db D (T - timedelta_minutes 29) (T + timedelta_minutes 29) ex) = None \<and>
      scalar (stmt_p_conflict db P (T - timedelta_minutes 29) (T + timedelta_minutes 29) ex) \<noteq> None"
    unfolding v by (simp add: reasons_distinct)
  have third: "validate_appointment_slot db D P T ex = Inr ()"
    if far: "\<forall>a \<in> set (appointments db).
          (appt_doctor_id a = D \<or> appt_patient_id a = P) \<and> Some (appt_id a) \<noteq> ex \<longrightarrow>
          timedelta_minutes 30 \<le> \<bar>appt_scheduled_time a - T\<bar>"
  proof -
    have out: "\<not> (T - timedelta_minutes 29 \<le> t \<and> t \<le> T + timedelta_minutes 29)"
      if "timedelta_minutes 30 \<le> \<bar>t - T\<bar>" for t
      using that by (simp add: timedelta_minutes_def abs_if split: if_splits)
    have "scalar (stmt_conflict db D (T - timedelta_minutes 29) (T + timedelta_minutes 29) ex) = None"
      using far out doc by blast
    moreover
    have "scalar (stmt_p_conflict db P (T - timedelta_minutes 29) (T + timedelta_minutes 29) ex) = None"
      using far out pat by blast
    ultimately show ?thesis unfolding v by simp
  qed
  show ?thesis
    using first second third doc pat by blast
qed

text \<open>
  On the sample session, Monday 10:00 is 30 minutes from both appointments of doctor 1
  and is accepted; 10:01 is 29 minutes from the cancelled appointment at 10:30 and is
  rejected; the same request is accepted when that appointment is the excluded one.
\<close>

theorem slot_conflict_window_witness:
  "validate_appointment_slot example_session 1 2 (datetime_of 739921 10 0) None = Inr () \<and>
   validate_appointment_slot example_session 1 2 (datetime_of 739921 10 1) None = Inl doctor_slot_conflict \<and>
   validate_appointment_slot example_session 1 3 (datetime_of 739921 10 1) (Some 2) = Inr ()"
proof -
  have a: "validate_appointment_slot example_session 1 2 (datetime_of 739921 10 0) None = Inr ()"
  proof -
    have "validate_appointment_slot example_session 1 2 (datetime_of 739921 10 0) None
        \<noteq> Inl doctor_unavailable"
      and "valid_datetime (datetime_of 739921 10 0 - timedelta_minutes 29)"
      and "valid_datetime (datetime_of 739921 10 0 + timedelta_minutes 29)"
      and "(None :: int option) \<noteq> Some 0"
      by code_simp+
    from slot_conflict_window [OF this] have
      "(\<forall>a \<in> set (appointments example_session).
          (appt_doctor_id a = 1 \<or> appt_patient_id a = 2) \<and> Some (appt_id a) \<noteq> None \<longrightarrow>
          timedelta_minutes 30 \<le> \<bar>appt_scheduled_time a - datetime_of 739921 10 0\<bar>) \<longrightarrow>
        validate_appointment_slot example_session 1 2 (datetime_of 739921 10 0) None = Inr ()"
      by blast
    moreover have "\<forall>a \<in> set (appointments example_session).
          (appt_doctor_id a = 1 \<or> appt_patient_id a = 2) \<and> Some (appt_id a) \<noteq> None \<longrightarrow>
          timedelta_minutes 30 \<le> \<bar>appt_scheduled_time a - datetime_of 739921 10 0\<bar>"
      by code_simp
    ultimately show ?thesis by blast
  qed
  have b: "validate_appointment_slot example_session 1 2 (datetime_of 739921 10 1) None
      = Inl doctor_slot_conflict"
  proof -
    have "validate_appointment_slot example_session 1 2 (datetime_of 739921 10 1) None
        \<noteq> Inl doctor_unavailable"
      and "valid_datetime (datetime_of 739921 10 1 - timedelta_minutes 29)"
      and "valid_datetime (datetime_of 739921 10 1 + timedelta_minutes 29)"
      and "(None :: int option) \<noteq> Some 0"
      by code_simp+
    from slot_conflict_window [OF this] have
      "validate_appointment_slot example_session 1 2 (datetime_of 739921 10 1) None = Inl doctor_slot_conflict \<longleftrightarrow>
        (\<exists>a \<in> set (appointments example_session).
            appt_doctor_id a = 1 \<and> Some (appt_id a) \<noteq> None \<and>
            datetime_of 739921 10 1 - timedelta_minutes 29 \<le> appt_scheduled_time a \<and>
            appt_scheduled_time a \<le> datetime_of 739921 10 1 + timedelta_minutes 29)"
      by blast
    moreover have "\<exists>a \<in> set (appointments example_session).
            appt_doctor_id a = 1 \<and> Some (appt_id a) \<noteq> None \<and>
            datetime_of 739921 10 1 - timedelta_minutes 29 \<le> appt_scheduled_time a \<and>
            appt_scheduled_time a \<le> datetime_of 739921 10 1 + timedelta_minutes 29"
      by code_simp
    ultimately show ?thesis by blast
  qed
  have c: "validate_appointment_slot example_session 1 3 (datetime_of 739921 10 1) (Some 2) = Inr ()"
  proof -
    have "validate_appointment_slot example_session 1 3 (datetime_of 739921 10 1) (Some 2)
        \<noteq> Inl doctor_unavailable"
      and "valid_datetime (datetime_of 739921 10 1 - timedelta_minutes 29)"
      and "valid_datetime (datetime_of 739921 10 1 + timedelta_minutes 29)"
      and "Some (2 :: int) \<noteq> Some 0"
      by code_simp+
    from slot_conflict_window [OF this] have
      "(\<forall>a \<in> set (appointments example_session).
          (appt_doctor_id a = 1 \<or> appt_patient_id a = 3) \<and> Some (appt_id a) \<noteq> Some 2 \<longrightarrow>
          timedelta_minutes 30 \<le> \<bar>appt_scheduled_time a - datetime_of 739921 10 1\<bar>) \<longrightarrow>
        validate_appointment_slot example_session 1 3 (datetime_of 739921 10 1) (Some 2) = Inr ()"
      by blast
    moreover have "\<forall>a \<in> set (appointments example_session).
          (appt_doctor_id a = 1 \<or> appt_patient_id a = 3) \<and> Some (appt_id a) \<noteq> Some 2 \<longrightarrow>
          timedelta_minutes 30 \<le> \<bar>appt_scheduled_time a - datetime_of 739921 10 1\<bar>"
      by code_simp
    ultimately show ?thesis by blast
  qed
  from a b c show ?thesis by simp
qed

subsection \<open>Facts about the update of an appointment\<close>

lemma get_appointment_id: "get_appointment db aid = Some appt \<Longrightarrow> appt_id appt = aid"
  unfolding get_appointment_def by (drule scalar_filter_SomeD) simp

lemma scalar_filter_map_update:
  assumes "scalar (filter (\<lambda>a. k a = i) rows) = Some r" and "k r' = i"
  shows "scalar (filter (\<lambda>a. k a = i) (map (\<lambda>a. if k a = i then r' else a) rows)) = Some r'"
  using assms
proof (induction rows)
  case Nil
  then show ?case by (simp add: scalar_def)
next
  case (Cons a rows)
  then show ?case by (cases "k a = i") (simp_all add: scalar_def)
qed

lemma get_appointment_commit:
  assumes "get_appointment db aid = Some appt" and "appt_id appt' = aid"
  shows "get_appointment (commit_appointment db appt') aid = Some appt'"
  using scalar_filter_map_update [of appt_id aid "appointments db" appt appt'] assms
  by (simp add: get_appointment_def commit_appointment_def)

lemma assign_scheduled_time_id:
  "assign_scheduled_time db appt appt_in = Inr appt1 \<Longrightarrow>
     appt_id appt1 = appt_id appt \<and> appt_status appt1 = appt_status appt"
  by (auto simp: assign_scheduled_time_def split: option.splits sum.splits)

lemma assign_status_id:
  "assign_status appt appt_in = Inr appt2 \<Longrightarrow> appt_id appt2 = appt_id appt"
  by (auto simp: assign_status_def split: option.splits sum.splits)

lemma assign_notes_id:
  "appt_id (assign_notes appt appt_in) = appt_id appt \<and>
   appt_status (assign_notes appt appt_in) = appt_status appt"
  by (simp add: assign_notes_def split: option.splits)

lemma update_appointment_id:
  "update_appointment db appt appt_in = Inr (appt', db') \<Longrightarrow>
     appt_id appt' = appt_id appt \<and> db' = commit_appointment db appt'"
  by (auto simp: update_appointment_def Let_def assign_notes_id
      dest!: assign_scheduled_time_id assign_status_id split: sum.splits)

lemma update_appointment_status:
  "update_appointment db appt appt_in = Inr (appt', db') \<Longrightarrow>
     (case upd_status appt_in of
        None \<Rightarrow> appt_status appt' = appt_status appt
      | Some v \<Rightarrow> AppointmentStatus_of v = Inr (appt_status appt'))"
  by (auto simp: update_appointment_def Let_def assign_notes_id assign_status_def
      dest!: assign_scheduled_time_id split: sum.splits option.splits)

lemma update_appointment_status_only:
  assumes "upd_scheduled_time appt_in = None" "upd_status appt_in = Some v"
    and "AppointmentStatus_of v = Inr st"
  shows "update_appointment db appt appt_in =
     Inr (assign_notes (appt\<lparr>appt_status := st\<rparr>) appt_in,
          commit_appointment db (assign_notes (appt\<lparr>appt_status := st\<rparr>) appt_in))"
  using assms
  by (simp add: update_appointment_def assign_scheduled_time_def assign_status_def Let_def)

lemma update_appointment_conflict:
  assumes "upd_scheduled_time appt_in = Some t"
    and "validate_appointment_slot db (appt_doctor_id appt) (appt_patient_id appt) t
           (Some (appt_id appt)) = Inl e"
  shows "update_appointment db appt appt_in = Inl (e, appt)"
  using assms by (simp add: update_appointment_def assign_scheduled_time_def)

lemma update_appointment_validated:
  assumes "upd_scheduled_time appt_in = Some t"
    and "update_appointment db appt appt_in = Inr x"
  shows "validate_appointment_slot db (appt_doctor_id appt) (appt_patient_id appt) t
           (Some (appt_id appt)) = Inr ()"
  using assms
  by (auto simp: update_appointment_def assign_scheduled_time_def split: sum.splits)

lemma route_after_guards:
  assumes "get_appointment db aid = Some appt"
    and "patient_guard u appt appt_in = None" and "doctor_guard u appt = None"
  shows "routers_update_appointment db aid appt_in u =
     (case update_appointment db appt appt_in of
        Inl (ValueError msg, _) \<Rightarrow> (HTTPException 400 msg, db)
      | Inl (e, _) \<Rightarrow> (Unhandled e, db)
      | Inr (appt', db') \<Rightarrow> (Ok appt', db'))"
  using assms by (simp add: routers_update_appointment_def)

text \<open>With an excluded id other than 0 the scans see the table without the rows of that
  id.\<close>

lemma stmt_conflict_excluding:
  assumes "i \<noteq> 0"
  shows "stmt_conflict db D ws we (Some i) =
     stmt_conflict (db\<lparr>appointments := filter (\<lambda>a. appt_id a \<noteq> i) (appointments db)\<rparr>) D ws we None"
  using assms unfolding stmt_conflict_def
  by (auto simp: not_excluded_def truthy_id_def intro: filter_cong)

lemma stmt_p_conflict_excluding:
  assumes "i \<noteq> 0"
  shows "stmt_p_conflict db P ws we (Some i) =
     stmt_p_conflict (db\<lparr>appointments := filter (\<lambda>a. appt_id a \<noteq> i) (appointments db)\<rparr>) P ws we None"
  using assms unfolding stmt_p_conflict_def
  by (auto simp: not_excluded_def truthy_id_def intro: filter_cong)

lemma validate_excluding_own_row:
  assumes "i \<noteq> 0"
  shows "validate_appointment_slot db D P T (Some i) =
     validate_appointment_slot (db\<lparr>appointments := filter (\<lambda>a. appt_id a \<noteq> i) (appointments db)\<rparr>)
       D P T None"
proof -
  have w: "any_window (db\<lparr>appointments := rows\<rparr>) D T = any_window db D T" for rows
    by (simp add: any_window_def avail_list_def)
  show ?thesis
    unfolding validate_appointment_slot_def w
      stmt_conflict_excluding [OF assms] stmt_p_conflict_excluding [OF assms] ..
qed

subsection \<open>C9: a time change re-runs the validator\<close>

text \<open>
  C9: when an update carries a new \<open>scheduled_time\<close>, \<open>update_appointment\<close> runs the
  validator for the doctor and the patient of the appointment with the appointment's own
  id as the excluded id. If the validator raises, the exception is the outcome of the
  update, the object is as it was (time, status and notes keep their values) and nothing
  is committed; an update that succeeds has passed the validator. For an id other than
  0 the excluded id makes the scans ignore the appointment's own row. Through the route,
  for a caller who passes the role guards, a \<^verbatim>\<open>ValueError\<close> of the validator reaches the
  caller as a 400 whose detail is the validator's message, and the tables are unchanged.
\<close>

theorem reschedule_runs_validator:
  assumes "upd_scheduled_time appt_in = Some t"
  shows
    "(\<forall>e. validate_appointment_slot db (appt_doctor_id appt) (appt_patient_id appt) t
              (Some (appt_id appt)) = Inl e \<longrightarrow>
          update_appointment db appt appt_in = Inl (e, appt)) \<and>
     (\<forall>x. update_appointment db appt appt_in = Inr x \<longrightarrow>
          validate_appointment_slot db (appt_doctor_id appt) (appt_patient_id appt) t
              (Some (appt_id appt)) = Inr ()) \<and>
     (appt_id appt \<noteq> 0 \<longrightarrow>
        validate_appointment_slot db (appt_doctor_id appt) (appt_patient_id appt) t
              (Some (appt_id appt)) =
        validate_appointment_slot
          (db\<lparr>appointments := filter (\<lambda>a. appt_id a \<noteq> appt_id appt) (appointments db)\<rparr>)
          (appt_doctor_id appt) (appt_patient_id appt) t None) \<and>
     (\<forall>msg. get_appointment db aid = Some appt \<and> patient_guard u appt appt_in = None \<and>
            doctor_guard u appt = None \<and>
            validate_appointment_slot db (appt_doctor_id appt) (appt_patient_id appt) t
              (Some (appt_id appt)) = Inl (ValueError msg) \<longrightarrow>
          routers_update_appointment db aid appt_in u = (HTTPException 400 msg, db))"
proof (intro conjI allI impI)
  fix e
  assume "validate_appointment_slot db (appt_doctor_id appt) (appt_patient_id appt) t
      (Some (appt_id appt)) = Inl e"
  with assms show "update_appointment db appt appt_in = Inl (e, appt)"
    by (rule update_appointment_conflict)
next
  fix x
  assume "update_appointment db appt appt_in = Inr x"
  with assms show "validate_appointment_slot db (appt_doctor_id appt) (appt_patient_id appt) t
      (Some (appt_id appt)) = Inr ()"
    by (rule update_appointment_validated)
next
  assume "appt_id appt \<noteq> 0"
  then show "validate_appointment_slot db (appt_doctor_id appt) (appt_patient_id appt) t
        (Some (appt_id appt)) =
      validate_appointment_slot
        (db\<lparr>appointments := filter (\<lambda>a. appt_id a \<noteq> appt_id appt) (appointments db)\<rparr>)
        (appt_doctor_id appt) (appt_patient_id appt) t None"
    by (rule validate_excluding_own_row)
next
  fix msg
  assume a: "get_appointment db aid = Some appt \<and> patient_guard u appt appt_in = None \<and>
      doctor_guard u appt = None \<and>
      validate_appointment_slot db (appt_doctor_id appt) (appt_patient_id appt) t
        (Some (appt_id appt)) = Inl (ValueError msg)"
  then have "update_appointment db appt appt_in = Inl (ValueError msg, appt)"
    using update_appointment_conflict [OF assms, of db appt "ValueError msg"] by blast
  with a show "routers_update_appointment db aid appt_in u = (HTTPException 400 msg, db)"
    by (simp add: route_after_guards)
qed

text \<open>
  On the sample session patient 2 (user 10) moves appointment 1 to 10:15, a quarter of an
  hour before the cancelled appointment of the same doctor: the update raises
  \<open>doctor_slot_conflict\<close>, the object is unchanged, the route answers 400 with the message
  and the session is unchanged. Moving it to 09:31, one minute from its own present
  time, succeeds.
\<close>

theorem reschedule_runs_validator_witness:
  "update_appointment example_session
      \<lparr>appt_id = 1, appt_patient_id = 2, appt_doctor_id = 1, appt_hospital_id = None,
       appt_scheduled_time = datetime_of 739921 9 30, appt_status = PENDING, appt_notes = None\<rparr>
      \<lparr>upd_scheduled_time = Some (datetime_of 739921 10 15), upd_status = Some ''cancelled'',
       upd_notes = Some ''later''\<rparr>
     = Inl (doctor_slot_conflict,
        \<lparr>appt_id = 1, appt_patient_id = 2, appt_doctor_id = 1, appt_hospital_id = None,
         appt_scheduled_time = datetime_of 739921 9 30, appt_status = PENDING, appt_notes = None\<rparr>) \<and>
   routers_update_appointment example_session 1
      \<lparr>upd_scheduled_time = Some (datetime_of 739921 10 15), upd_status = Some ''cancelled'',
       upd_notes = Some ''later''\<rparr>
      \<lparr>user_id = 10, role = PATIENT, patient_profile = Some 2, doctor_profile = None\<rparr>
     = (HTTPException 400 ''Doctor has another appointment in that slot'', example_session) \<and>
   validate_appointment_slot example_session 1 2 (datetime_of 739921 9 31) (Some 1) = Inr ()"
proof -
  let ?appt = "\<lparr>appt_id = 1, appt_patient_id = 2, appt_doctor_id = 1, appt_hospital_id = None,
       appt_scheduled_time = datetime_of 739921 9 30, appt_status = PENDING, appt_notes = None\<rparr>"
  let ?upd = "\<lparr>upd_scheduled_time = Some (datetime_of 739921 10 15), upd_status = Some ''cancelled'',
       upd_notes = Some ''later''\<rparr>"
  let ?u = "\<lparr>user_id = 10, role = PATIENT, patient_profile = Some 2, doctor_profile = None\<rparr>"
  have t: "upd_scheduled_time ?upd = Some (datetime_of 739921 10 15)" by simp
  note th = reschedule_runs_validator [OF t, of example_session ?appt 1 ?u]
  have v: "validate_appointment_slot example_session (appt_doctor_id ?appt) (appt_patient_id ?appt)
      (datetime_of 739921 10 15) (Some (appt_id ?appt))
      = Inl (ValueError ''Doctor has another appointment in that slot'')"
    by code_simp
  have g: "get_appointment example_session 1 = Some ?appt" "patient_guard ?u ?appt ?upd = None"
    "doctor_guard ?u ?appt = None"
    by code_simp+
  from th v have a: "update_appointment example_session ?appt ?upd
      = Inl (ValueError ''Doctor has another appointment in that slot'', ?appt)"
    by blast
  from th v g have b: "routers_update_appointment example_session 1 ?upd ?u
      = (HTTPException 400 ''Doctor has another appointment in that slot'', example_session)"
    by blast
  have t': "upd_scheduled_time \<lparr>upd_scheduled_time = Some (datetime_of 739921 9 31),
      upd_status = None, upd_notes = None\<rparr> = Some (datetime_of 739921 9 31)" by simp
  have "validate_appointment_slot
      (example_session\<lparr>appointments :=
         filter (\<lambda>a. appt_id a \<noteq> appt_id ?appt) (appointments example_session)\<rparr>)
      (appt_doctor_id ?appt) (appt_patient_id ?appt) (datetime_of 739921 9 31) None = Inr ()"
    by code_simp
  with reschedule_runs_validator [OF t', of example_session ?appt 1 ?u]
  have c: "validate_appointment_slot example_session 1 2 (datetime_of 739921 9 31) (Some 1) = Inr ()"
    by simp
  from a b c show ?thesis by (simp add: doctor_slot_conflict_def)
qed

lemma guards_not_Ok:
  "patient_guard u appt appt_in \<noteq> Some (Ok x)" "doctor_guard u appt \<noteq> Some (Ok x)"
  by (auto simp: patient_guard_def doctor_guard_def split: option.splits)

lemma route_Ok_update:
  assumes "get_appointment db aid = Some appt"
    and "routers_update_appointment db aid appt_in u = (Ok appt', db')"
  shows "update_appointment db appt appt_in = Inr (appt', db')"
  using assms guards_not_Ok(1) [of u appt appt_in appt'] guards_not_Ok(2) [of u appt appt']
  by (auto simp: routers_update_appointment_def
      split: option.splits sum.splits exn.splits prod.splits)

subsection \<open>C4: status changes\<close>

text \<open>
  C4, as the specification states it: no update changes the status of an appointment
  that is rejected or cancelled. On the sample session appointment 2 is cancelled; the
  doctor who owns it (user 11) sends the status \<^verbatim>\<open>approved\<close>, the route answers with the
  appointment approved, and that is what the table holds afterwards.
\<close>

theorem terminal_status_counterexample:
  "map appt_status (appointments example_session) = [PENDING, CANCELLED] \<and>
   fst (routers_update_appointment example_session 2
         \<lparr>upd_scheduled_time = None, upd_status = Some ''approved'', upd_notes = None\<rparr>
         \<lparr>user_id = 11, role = DOCTOR, patient_profile = None, doctor_profile = Some 1\<rparr>)
     = Ok \<lparr>appt_id = 2, appt_patient_id = 3, appt_doctor_id = 1, appt_hospital_id = None,
           appt_scheduled_time = datetime_of 739921 10 30, appt_status = APPROVED, appt_notes = None\<rparr> \<and>
   map appt_status (appointments (snd (routers_update_appointment example_session 2
         \<lparr>upd_scheduled_time = None, upd_status = Some ''approved'', upd_notes = None\<rparr>
         \<lparr>user_id = 11, role = DOCTOR, patient_profile = None, doctor_profile = Some 1\<rparr>)))
     = [PENDING, APPROVED]"
  by code_simp

text \<open>
  C4, amended: the update has no table of transitions, and rejected and cancelled are not
  terminal. An update without a new time that carries one of the four status values, sent
  by an admin, by the doctor who owns the appointment, or by the patient who owns it when
  the value is \<^verbatim>\<open>cancelled\<close>, succeeds and sets the status to that value whatever the
  present status is. A successful update that carries no status leaves the status as it
  was.
\<close>

theorem status_update_any_state:
  assumes "get_appointment db aid = Some appt"
  shows
    "(upd_scheduled_time appt_in = None \<and> upd_status appt_in = Some v \<and>
      AppointmentStatus_of v = Inr st \<and>
      (role u = ADMIN \<or>
       role u = DOCTOR \<and> doctor_profile u = Some (appt_doctor_id appt) \<or>
       role u = PATIENT \<and> patient_profile u = Some (appt_patient_id appt) \<and> v = ''cancelled'') \<longrightarrow>
      (\<exists>appt' db'.
          routers_update_appointment db aid appt_in u = (Ok appt', db') \<and>
          appt_status appt' = st \<and> get_appointment db' aid = Some appt')) \<and>
     (\<forall>appt' db'.
        routers_update_appointment db aid appt_in u = (Ok appt', db') \<and> upd_status appt_in = None \<longrightarrow>
        appt_status appt' = appt_status appt)"
proof (intro conjI allI impI)
  assume a: "upd_scheduled_time appt_in = None \<and> upd_status appt_in = Some v \<and>
      AppointmentStatus_of v = Inr st \<and>
      (role u = ADMIN \<or>
       role u = DOCTOR \<and> doctor_profile u = Some (appt_doctor_id appt) \<or>
       role u = PATIENT \<and> patient_profile u = Some (appt_patient_id appt) \<and> v = ''cancelled'')"
  let ?appt' = "assign_notes (appt\<lparr>appt_status := st\<rparr>) appt_in"
  from a have g: "patient_guard u appt appt_in = None" "doctor_guard u appt = None"
    by (auto simp: patient_guard_def doctor_guard_def truthy_str_def)
  from a have up: "update_appointment db appt appt_in = Inr (?appt', commit_appointment db ?appt')"
    using update_appointment_status_only [of appt_in v st db appt] by blast
  have r: "routers_update_appointment db aid appt_in u = (Ok ?appt', commit_appointment db ?appt')"
    by (simp add: route_after_guards [OF assms g] up)
  have i: "appt_id ?appt' = aid" "appt_status ?appt' = st"
    using get_appointment_id [OF assms] by (simp_all add: assign_notes_id)
  from r i get_appointment_commit [OF assms i(1)]
  show "\<exists>appt' db'.
          routers_update_appointment db aid appt_in u = (Ok appt', db') \<and>
          appt_status appt' = st \<and> get_appointment db' aid = Some appt'"
    by blast
next
  fix appt' db'
  assume a: "routers_update_appointment db aid appt_in u = (Ok appt', db') \<and> upd_status appt_in = None"
  then have "update_appointment db appt appt_in = Inr (appt', db')"
    using route_Ok_update [OF assms] by blast
  from update_appointment_status [OF this] a show "appt_status appt' = appt_status appt"
    by simp
qed

text \<open>
  On the sample session the admin (user 12) sends \<^verbatim>\<open>pending\<close> for the cancelled appointment
  2, and the patient who owns the pending appointment 1 sends only a note.
\<close>

theorem status_update_any_state_witness:
  "(\<exists>appt' db'.
      routers_update_appointment example_session 2
        \<lparr>upd_scheduled_time = None, upd_status = Some ''pending'', upd_notes = None\<rparr>
        \<lparr>user_id = 12, role = ADMIN, patient_profile = None, doctor_profile = None\<rparr> = (Ok appt', db') \<and>
      appt_status appt' = PENDING \<and> get_appointment db' 2 = Some appt') \<and>
   appt_status
     \<lparr>appt_id = 1, appt_patient_id = 2, appt_doctor_id = 1, appt_hospital_id = None,
      appt_scheduled_time = datetime_of 739921 9 30, appt_status = PENDING,
      appt_notes = Some ''bring the referral''\<rparr> = PENDING"
proof -
  let ?a2 = "\<lparr>appt_id = 2, appt_patient_id = 3, appt_doctor_id = 1, appt_hospital_id = None,
      appt_scheduled_time = datetime_of 739921 10 30, appt_status = CANCELLED, appt_notes = None\<rparr>"
  let ?a1 = "\<lparr>appt_id = 1, appt_patient_id = 2, appt_doctor_id = 1, appt_hospital_id = None,
      appt_scheduled_time = datetime_of 739921 9 30, appt_status = PENDING, appt_notes = None\<rparr>"
  let ?admin = "\<lparr>user_id = 12, role = ADMIN, patient_profile = None, doctor_profile = None\<rparr>"
  let ?patient = "\<lparr>user_id = 10, role = PATIENT, patient_profile = Some 2, doctor_profile = None\<rparr>"
  let ?note = "\<lparr>upd_scheduled_time = None, upd_status = None, upd_notes = Some ''bring the referral''\<rparr>"
  have g2: "get_appointment example_session 2 = Some ?a2" by code_simp
  have p: "AppointmentStatus_of ''pending'' = Inr PENDING" by code_simp
  from status_update_any_state [OF g2,
      of "\<lparr>upd_scheduled_time = None, upd_status = Some ''pending'', upd_notes = None\<rparr>"
         "''pending''" PENDING ?admin] p
  have a: "\<exists>appt' db'.
      routers_update_appointment example_session 2
        \<lparr>upd_scheduled_time = None, upd_status = Some ''pending'', upd_notes = None\<rparr> ?admin
        = (Ok appt', db') \<and>
      appt_status appt' = PENDING \<and> get_appointment db' 2 = Some appt'"
    by simp
  have g1: "get_appointment example_session 1 = Some ?a1" by code_simp
  have r: "routers_update_appointment example_session 1 ?note ?patient
      = (Ok (?a1\<lparr>appt_notes := Some ''bring the referral''\<rparr>),
         commit_appointment example_session (?a1\<lparr>appt_notes := Some ''bring the referral''\<rparr>))"
    by code_simp
  from status_update_any_state [OF g1, of ?note _ _ ?patient] r
  have b: "appt_status (?a1\<lparr>appt_notes := Some ''bring the referral''\<rparr>) = appt_status ?a1"
    by simp
  from a b show ?thesis by simp
qed

subsection \<open>C5: the status a patient may send\<close>

text \<open>
  What the route does for the patient who owns the appointment. The value
  \<^verbatim>\<open>cancelled\<close>, sent alone, is accepted and becomes the status. Any other value that is not
  the empty string is refused by the patient guard with "Invalid status change", and the
  session is unchanged.
\<close>

lemma patient_cancel_accepted:
  assumes "get_appointment db aid = Some appt"
    and "role u = PATIENT" and "patient_profile u = Some (appt_patient_id appt)"
    and "upd_scheduled_time appt_in = None" and "upd_status appt_in = Some ''cancelled''"
  shows "routers_update_appointment db aid appt_in u =
     (Ok (assign_notes (appt\<lparr>appt_status := CANCELLED\<rparr>) appt_in),
      commit_appointment db (assign_notes (appt\<lparr>appt_status := CANCELLED\<rparr>) appt_in))"
proof -
  have g: "patient_guard u appt appt_in = None" "doctor_guard u appt = None"
    using assms by (simp_all add: patient_guard_def doctor_guard_def)
  have p: "AppointmentStatus_of ''cancelled'' = Inr CANCELLED"
    by (simp add: AppointmentStatus_of_def)
  show ?thesis
    by (simp add: route_after_guards [OF assms(1) g]
        update_appointment_status_only [OF assms(4) assms(5) p])
qed

lemma patient_other_status_rejected:
  assumes "get_appointment db aid = Some appt"
    and "role u = PATIENT" and "patient_profile u = Some (appt_patient_id appt)"
    and "upd_status appt_in = Some v" and "v \<noteq> []" and "v \<noteq> ''cancelled''"
  shows "routers_update_appointment db aid appt_in u = (HTTPException 400 ''Invalid status change'', db)"
  using assms
  by (simp add: routers_update_appointment_def patient_guard_def truthy_str_def)

text \<open>
  C5: every status value other than \<^verbatim>\<open>cancelled\<close> that the owning patient sends is to be
  refused with "Invalid status change". The empty string is such a value, and the route
  does not refuse it so: \<^verbatim>\<open>if appt_in.status and ...\<close> is false for it, the request reaches
  \<open>update_appointment\<close>, and the caller receives the message of the \<^verbatim>\<open>ValueError\<close> that
  \<^verbatim>\<open>AppointmentStatus('')\<close> raises. The appointment is unchanged.
\<close>

theorem patient_empty_status_response:
  "routers_update_appointment example_session 1
     \<lparr>upd_scheduled_time = None, upd_status = Some [], upd_notes = None\<rparr>
     \<lparr>user_id = 10, role = PATIENT, patient_profile = Some 2, doctor_profile = None\<rparr>
   = (HTTPException 400 ([CHR 0x27, CHR 0x27] @ '' is not a valid AppointmentStatus''),
      example_session)"
  by code_simp

subsection \<open>Facts about the table of refresh tokens\<close>

lemma update_first_length [simp]: "length (update_first P f rows) = length rows"
  by (induction rows) simp_all

lemma update_first_none: "\<forall>r \<in> set rows. \<not> P r \<Longrightarrow> update_first P f rows = rows"
  by (induction rows) simp_all

lemma update_first_nth:
  assumes "i < length rows"
  shows "update_first P f rows ! i = rows ! i \<or> update_first P f rows ! i = f (rows ! i)"
  using assms
proof (induction rows arbitrary: i)
  case Nil
  then show ?case by simp
next
  case (Cons r rows)
  then show ?case by (cases i) auto
qed

lemma scalar_filter_update_first:
  assumes "scalar (filter P rows) = Some r" and "P (f r)"
  shows "scalar (filter P (update_first P f rows)) = Some (f r)"
  using assms by (induction rows) (auto simp: scalar_def)

lemma update_first_all_revoked:
  assumes "distinct (map rt_jti rows)"
  shows "\<forall>r \<in> set (update_first (\<lambda>r. rt_jti r = j) (\<lambda>r. r\<lparr>rt_revoked := True\<rparr>) rows).
           rt_jti r = j \<longrightarrow> rt_revoked r"
  using assms
proof (induction rows)
  case Nil
  then show ?case by simp
next
  case (Cons a rows)
  show ?case
  proof (cases "rt_jti a = j")
    case True
    with Cons.prems have "\<forall>r \<in> set rows. rt_jti r \<noteq> j" by (fastforce simp: image_iff)
    with True show ?thesis by simp
  next
    case False
    with Cons show ?thesis by simp
  qed
qed

lemma update_first_jti:
  "map rt_jti (update_first P (\<lambda>r. r\<lparr>rt_revoked := True\<rparr>) rows) = map rt_jti rows"
  by (induction rows) simp_all

lemma scalar_filter_unique:
  assumes "distinct (map k rows)" and "r \<in> set rows" and "k r = j" and "Q r"
  shows "scalar (filter (\<lambda>x. k x = j \<and> Q x) rows) = Some r"
  using assms
proof (induction rows)
  case Nil
  then show ?case by simp
next
  case (Cons a rows)
  show ?case
  proof (cases "a = r")
    case True
    with Cons.prems show ?thesis by (simp add: scalar_def)
  next
    case False
    with Cons.prems have "r \<in> set rows" "k a \<noteq> j" by auto
    with Cons show ?thesis by simp
  qed
qed

lemma revoke_refresh_token_rows:
  "revoke_refresh_token db j = db \<or>
   revoke_refresh_token db j =
     db\<lparr>refresh_tokens :=
          update_first (\<lambda>r. rt_jti r = j) (\<lambda>r. r\<lparr>rt_revoked := True\<rparr>) (refresh_tokens db)\<rparr>"
  by (simp add: revoke_refresh_token_def split: option.splits)

lemma revoke_refresh_token_jti:
  "map rt_jti (refresh_tokens (revoke_refresh_token db j)) = map rt_jti (refresh_tokens db)"
  using revoke_refresh_token_rows [of db j] by (auto simp: update_first_jti)

lemma revoke_refresh_token_unknown:
  assumes "j \<notin> set (map rt_jti (refresh_tokens db))"
  shows "revoke_refresh_token db j = db"
proof -
  from assms have "scalar (filter (\<lambda>r. rt_jti r = j) (refresh_tokens db)) = None"
    by (auto simp: scalar_filter_None_iff)
  then show ?thesis by (simp add: revoke_refresh_token_def)
qed

lemma revoke_refresh_token_revoked:
  assumes "scalar (filter (\<lambda>r. rt_jti r = j) (refresh_tokens db)) = Some rec" and "rt_revoked rec"
  shows "revoke_refresh_token db j = db"
  using assms by (simp add: revoke_refresh_token_def)

lemma revoke_refresh_token_idem:
  "revoke_refresh_token (revoke_refresh_token db j) j = revoke_refresh_token db j"
proof (cases "scalar (filter (\<lambda>r. rt_jti r = j) (refresh_tokens db))")
  case None
  then show ?thesis by (simp add: revoke_refresh_token_def)
next
  case (Some rec)
  show ?thesis
  proof (cases "rt_revoked rec")
    case True
    with Some show ?thesis by (simp add: revoke_refresh_token_def)
  next
    case False
    let ?rows = "update_first (\<lambda>r. rt_jti r = j) (\<lambda>r. r\<lparr>rt_revoked := True\<rparr>) (refresh_tokens db)"
    from Some have j: "rt_jti rec = j" by (auto dest: scalar_filter_SomeD)
    from Some False have r: "revoke_refresh_token db j = db\<lparr>refresh_tokens := ?rows\<rparr>"
      by (simp add: revoke_refresh_token_def)
    have "scalar (filter (\<lambda>r. rt_jti r = j) ?rows) = Some (rec\<lparr>rt_revoked := True\<rparr>)"
      using scalar_filter_update_first [of "\<lambda>r. rt_jti r = j" "refresh_tokens db" rec
          "\<lambda>r. r\<lparr>rt_revoked := True\<rparr>"] Some j
      by simp
    then have "revoke_refresh_token (db\<lparr>refresh_tokens := ?rows\<rparr>) j = db\<lparr>refresh_tokens := ?rows\<rparr>"
      by (intro revoke_refresh_token_revoked [where rec = "rec\<lparr>rt_revoked := True\<rparr>"]) simp_all
    with r show ?thesis by simp
  qed
qed

lemma revoke_refresh_token_all_revoked:
  assumes "distinct (map rt_jti (refresh_tokens db))"
  shows "\<forall>r \<in> set (refresh_tokens (revoke_refresh_token db j)). rt_jti r = j \<longrightarrow> rt_revoked r"
proof (cases "scalar (filter (\<lambda>r. rt_jti r = j) (refresh_tokens db))")
  case None
  then have "revoke_refresh_token db j = db"
    by (simp add: revoke_refresh_token_def)
  moreover from None have "\<forall>r \<in> set (refresh_tokens db). rt_jti r \<noteq> j"
    by (simp add: scalar_filter_None_iff)
  ultimately show ?thesis by simp
next
  case (Some rec)
  show ?thesis
  proof (cases "rt_revoked rec")
    case True
    have "r = rec" if "r \<in> set (refresh_tokens db)" "rt_jti r = j" for r
      using scalar_filter_unique [OF assms that(1) that(2), of "\<lambda>_. True"] Some by simp
    with Some True show ?thesis by (auto simp: revoke_refresh_token_def)
  next
    case False
    with Some update_first_all_revoked [OF assms, of j] show ?thesis
      by (simp add: revoke_refresh_token_def)
  qed
qed

lemma validate_refresh_token_all_revoked:
  assumes "\<forall>r \<in> set (refresh_tokens db). rt_jti r = j \<longrightarrow> rt_revoked r"
  shows "\<not> validate_refresh_token db j uid now"
proof (cases "scalar (filter (\<lambda>r. rt_jti r = j \<and> rt_user_id r = uid) (refresh_tokens db))")
  case None
  then show ?thesis by (simp add: validate_refresh_token_def)
next
  case (Some rec)
  from scalar_filter_SomeD [OF this] assms have "rt_revoked rec" by blast
  with Some show ?thesis by (simp add: validate_refresh_token_def)
qed

lemma rows_kept_refl: "rows_kept rows rows"
  by (simp add: rows_kept_def)

lemma rows_kept_trans: "rows_kept a b \<Longrightarrow> rows_kept b c \<Longrightarrow> rows_kept a c"
  unfolding rows_kept_def by (metis le_trans less_le_trans)

lemma rows_kept_append: "rows_kept rows (rows @ extra)"
  by (simp add: rows_kept_def nth_append)

lemma rows_kept_update_first:
  "rows_kept rows (update_first P (\<lambda>r. r\<lparr>rt_revoked := True\<rparr>) rows)"
proof -
  have "rt_jti (update_first P (\<lambda>r. r\<lparr>rt_revoked := True\<rparr>) rows ! i) = rt_jti (rows ! i) \<and>
      (rt_revoked (rows ! i) \<longrightarrow> rt_revoked (update_first P (\<lambda>r. r\<lparr>rt_revoked := True\<rparr>) rows ! i))"
    if "i < length rows" for i
    using update_first_nth [OF that, of P "\<lambda>r. r\<lparr>rt_revoked := True\<rparr>"] by auto
  then show ?thesis by (simp add: rows_kept_def)
qed

lemma rows_kept_revoke: "rows_kept (refresh_tokens db) (refresh_tokens (revoke_refresh_token db j))"
  using revoke_refresh_token_rows [of db j]
  by (auto simp: rows_kept_refl rows_kept_update_first)

lemma rows_kept_create:
  "create_refresh_token_record db uid j e = Inr (rec, db') \<Longrightarrow>
     rows_kept (refresh_tokens db) (refresh_tokens db')"
  by (auto simp: create_refresh_token_record_def Let_def rows_kept_append split: if_splits)

lemma rows_kept_refresh:
  "rows_kept (refresh_tokens db) (refresh_tokens (snd (refresh_tokens_route db payload now now' new_jti)))"
proof -
  have k: "rows_kept (refresh_tokens db) (refresh_tokens (revoke_refresh_token db j))" for j
    by (rule rows_kept_revoke)
  show ?thesis
    unfolding refresh_tokens_route_def
    by (auto simp: Let_def rows_kept_refl k split: option.splits sum.splits
        intro: rows_kept_trans [OF k rows_kept_create])
qed

lemma rows_kept_op: "rows_kept (refresh_tokens db) (refresh_tokens (apply_token_op db op))"
proof (cases op)
  case (OpCreate uid j e)
  then show ?thesis
    by (auto simp: rows_kept_refl split: sum.splits dest: rows_kept_create)
next
  case (OpRevoke j)
  then show ?thesis by (simp add: rows_kept_revoke)
next
  case (OpRefresh payload now now' new_jti)
  then show ?thesis by (simp add: rows_kept_refresh)
qed

lemma rows_kept_ops: "rows_kept (refresh_tokens db) (refresh_tokens (apply_token_ops db ops))"
  unfolding apply_token_ops_def
proof (induction ops arbitrary: db)
  case Nil
  then show ?case by (simp add: rows_kept_refl)
next
  case (Cons op ops)
  from rows_kept_trans [OF rows_kept_op Cons.IH] show ?case by simp
qed

subsection \<open>C8: revocation\<close>

text \<open>
  C8: revoking twice leaves the table as revoking once does; revoking a \<open>jti\<close> that no
  record has, or whose record is already revoked, changes nothing; revoking never adds or
  removes a row (and, having no exception among its results, never raises); and through
  any sequence of the writes to the table (records created, records revoked, refresh
  requests served) a row that is revoked stays in its place, keeps its \<open>jti\<close> and stays
  revoked.
\<close>

theorem revoke_idempotent_and_final:
  "revoke_refresh_token (revoke_refresh_token db jti) jti = revoke_refresh_token db jti \<and>
   (jti \<notin> set (map rt_jti (refresh_tokens db)) \<longrightarrow> revoke_refresh_token db jti = db) \<and>
   (\<forall>rec. scalar (filter (\<lambda>r. rt_jti r = jti) (refresh_tokens db)) = Some rec \<and> rt_revoked rec \<longrightarrow>
      revoke_refresh_token db jti = db) \<and>
   length (refresh_tokens (revoke_refresh_token db jti)) = length (refresh_tokens db) \<and>
   (\<forall>i < length (refresh_tokens db).
      rt_revoked (refresh_tokens db ! i) \<longrightarrow>
      i < length (refresh_tokens (apply_token_ops db ops)) \<and>
      rt_jti (refresh_tokens (apply_token_ops db ops) ! i) = rt_jti (refresh_tokens db ! i) \<and>
      rt_revoked (refresh_tokens (apply_token_ops db ops) ! i))"
proof (intro conjI allI impI)
  show "revoke_refresh_token (revoke_refresh_token db jti) jti = revoke_refresh_token db jti"
    by (rule revoke_refresh_token_idem)
  show "revoke_refresh_token db jti = db" if "jti \<notin> set (map rt_jti (refresh_tokens db))"
    using that by (rule revoke_refresh_token_unknown)
  show "revoke_refresh_token db jti = db"
    if "scalar (filter (\<lambda>r. rt_jti r = jti) (refresh_tokens db)) = Some rec \<and> rt_revoked rec" for rec
    using that revoke_refresh_token_revoked [of jti db rec] by blast
  show "length (refresh_tokens (revoke_refresh_token db jti)) = length (refresh_tokens db)"
    using revoke_refresh_token_rows [of db jti] by auto
next
  fix i
  assume i: "i < length (refresh_tokens db)" and r: "rt_revoked (refresh_tokens db ! i)"
  note k = rows_kept_ops [of db ops, unfolded rows_kept_def]
  from k i show "i < length (refresh_tokens (apply_token_ops db ops))" by simp
  from k i show "rt_jti (refresh_tokens (apply_token_ops db ops) ! i) = rt_jti (refresh_tokens db ! i)"
    by simp
  from k i r show "rt_revoked (refresh_tokens (apply_token_ops db ops) ! i)" by simp
qed

text \<open>
  On the sample session: the \<open>jti\<close> \<open>zz\<close> is unknown and \<open>c3\<close> is revoked already, so
  revoking them changes nothing; and the third row, revoked, is still revoked after a
  record was created, \<open>c3\<close> was revoked again and \<open>a1\<close> was revoked.
\<close>

theorem revoke_idempotent_and_final_witness:
  "revoke_refresh_token example_session ''zz'' = example_session \<and>
   revoke_refresh_token example_session ''c3'' = example_session \<and>
   rt_revoked (refresh_tokens
     (apply_token_ops example_session
        [OpCreate 10 ''d4'' (datetime_of 739930 9 0), OpRevoke ''c3'', OpRevoke ''a1'']) ! 2) \<and>
   map rt_revoked (refresh_tokens (revoke_refresh_token example_session ''a1'')) = [True, False, True]"
proof -
  let ?ops = "[OpCreate 10 ''d4'' (datetime_of 739930 9 0), OpRevoke ''c3'', OpRevoke ''a1'']"
  note th = revoke_idempotent_and_final [of example_session _ ?ops]
  have "''zz'' \<notin> set (map rt_jti (refresh_tokens example_session))" by code_simp
  with th [of "''zz''"] have a: "revoke_refresh_token example_session ''zz'' = example_session"
    by blast
  have "scalar (filter (\<lambda>r. rt_jti r = ''c3'') (refresh_tokens example_session))
      = Some \<lparr>rt_user_id = 12, rt_jti = ''c3'', rt_expires_at = datetime_of 739928 9 0, rt_revoked = True\<rparr>"
    by code_simp
  with th [of "''c3''"] have b: "revoke_refresh_token example_session ''c3'' = example_session"
    by simp
  have "(2::nat) < length (refresh_tokens example_session)"
    "rt_revoked (refresh_tokens example_session ! 2)"
    by code_simp+
  with th [of "''a1''"] have c: "rt_revoked (refresh_tokens (apply_token_ops example_session ?ops) ! 2)"
    by blast
  have d: "map rt_revoked (refresh_tokens (revoke_refresh_token example_session ''a1''))
      = [True, False, True]"
    by code_simp
  from a b c d show ?thesis by simp
qed

subsection \<open>C3: validation of a refresh token\<close>

text \<open>
  C3: with the \<open>jti\<close> column unique, as the table declares it, \<open>validate_refresh_token\<close>
  returns false exactly when no record has that \<open>jti\<close> and user, or the record is revoked,
  or its \<open>expires_at\<close> lies before the present time; otherwise it returns true. After a
  refresh request was served, the \<open>jti\<close> of the token it presented validates for no user
  and at no time.
\<close>

theorem validate_refresh_token_iff:
  assumes "distinct (map rt_jti (refresh_tokens db))"
  shows
    "(validate_refresh_token db jti uid now = False \<longleftrightarrow>
        \<not> (\<exists>r \<in> set (refresh_tokens db). rt_jti r = jti \<and> rt_user_id r = uid) \<or>
        (\<exists>r \<in> set (refresh_tokens db).
            rt_jti r = jti \<and> rt_user_id r = uid \<and> (rt_revoked r \<or> rt_expires_at r < now))) \<and>
     (validate_refresh_token db jti uid now = True \<longleftrightarrow>
        (\<exists>r \<in> set (refresh_tokens db).
            rt_jti r = jti \<and> rt_user_id r = uid \<and> \<not> rt_revoked r \<and> \<not> rt_expires_at r < now)) \<and>
     (\<forall>p now1 now2 new_jti out db'.
        refresh_tokens_route db (Some p) now1 now2 new_jti = (Ok out, db') \<and> tp_jti p = Some jti \<longrightarrow>
        (\<forall>uid' now'. validate_refresh_token db' jti uid' now' = False))"
proof -
  let ?P = "\<lambda>r. rt_jti r = jti \<and> rt_user_id r = uid"
  have one: "r = r'" if "r \<in> set (refresh_tokens db)" "r' \<in> set (refresh_tokens db)"
    "rt_jti r = jti" "rt_jti r' = jti" for r r'
    using scalar_filter_unique [OF assms that(1) that(3), of "\<lambda>_. True"]
      scalar_filter_unique [OF assms that(2) that(4), of "\<lambda>_. True"] by simp
  have t: "validate_refresh_token db jti uid now \<longleftrightarrow>
      (\<exists>r \<in> set (refresh_tokens db). ?P r \<and> \<not> rt_revoked r \<and> \<not> rt_expires_at r < now)"
  proof (cases "scalar (filter ?P (refresh_tokens db))")
    case None
    then have "\<forall>r \<in> set (refresh_tokens db). \<not> ?P r" by (simp add: scalar_filter_None_iff)
    moreover from None have "\<not> validate_refresh_token db jti uid now"
      by (simp add: validate_refresh_token_def)
    ultimately show ?thesis by blast
  next
    case (Some rec)
    from scalar_filter_SomeD [OF Some] have rec: "rec \<in> set (refresh_tokens db)" "?P rec" by simp_all
    have v: "validate_refresh_token db jti uid now \<longleftrightarrow> \<not> rt_revoked rec \<and> \<not> rt_expires_at rec < now"
      using Some by (simp add: validate_refresh_token_def)
    show ?thesis unfolding v using rec one by blast
  qed
  have f: "validate_refresh_token db jti uid now = False \<longleftrightarrow>
        \<not> (\<exists>r \<in> set (refresh_tokens db). ?P r) \<or>
        (\<exists>r \<in> set (refresh_tokens db). ?P r \<and> (rt_revoked r \<or> rt_expires_at r < now))"
    using t one by blast
  have rot: "validate_refresh_token db' jti uid' now' = False"
    if r: "refresh_tokens_route db (Some p) now1 now2 new_jti = (Ok out, db') \<and> tp_jti p = Some jti"
    for p now1 now2 new_jti out db' uid' now'
  proof -
    let ?db1 = "revoke_refresh_token db jti"
    from r obtain e rec where
      c: "create_refresh_token_record ?db1 (tp_sub p) new_jti e = Inr (rec, db')"
      by (auto simp: refresh_tokens_route_def Let_def split: if_splits sum.splits prod.splits)
    have all: "\<forall>r \<in> set (refresh_tokens ?db1). rt_jti r = jti \<longrightarrow> rt_revoked r"
      by (rule revoke_refresh_token_all_revoked [OF assms])
    from r have "validate_refresh_token db jti (tp_sub p) now1"
      by (auto simp: refresh_tokens_route_def Let_def split: if_splits)
    then have "jti \<in> set (map rt_jti (refresh_tokens db))"
      by (auto simp: validate_refresh_token_def split: option.splits dest!: scalar_filter_SomeD)
    then have "jti \<in> set (map rt_jti (refresh_tokens ?db1))"
      by (simp only: revoke_refresh_token_jti)
    with c have "new_jti \<noteq> jti"
      and "refresh_tokens db' = refresh_tokens ?db1 @ [rec]" and "rt_jti rec = new_jti"
      by (auto simp: create_refresh_token_record_def Let_def split: if_splits)
    with all have "\<forall>r \<in> set (refresh_tokens db'). rt_jti r = jti \<longrightarrow> rt_revoked r"
      by auto
    then show ?thesis by (simp add: validate_refresh_token_all_revoked)
  qed
  show ?thesis using t f rot by blast
qed

text \<open>
  On the sample session at noon of the Monday: the token \<open>a1\<close> of user 10 validates; it
  does not validate for user 11; \<open>b2\<close> has expired, \<open>c3\<close> is revoked and \<open>zz\<close> has no
  record. After the refresh request that presents \<open>a1\<close> was served, \<open>a1\<close> does not
  validate.
\<close>

theorem validate_refresh_token_iff_witness:
  "validate_refresh_token example_session ''a1'' 10 (datetime_of 739921 12 0) = True \<and>
   validate_refresh_token example_session ''a1'' 11 (datetime_of 739921 12 0) = False \<and>
   validate_refresh_token example_session ''b2'' 11 (datetime_of 739921 12 0) = False \<and>
   validate_refresh_token example_session ''c3'' 12 (datetime_of 739921 12 0) = False \<and>
   validate_refresh_token example_session ''zz'' 10 (datetime_of 739921 12 0) = False \<and>
   fst (refresh_tokens_route example_session
          (Some \<lparr>tp_type = Some ''refresh'', tp_sub = 10, tp_jti = Some ''a1''\<rparr>)
          (datetime_of 739921 12 0) (datetime_of 739921 12 0) ''e5'') = Ok ''e5'' \<and>
   validate_refresh_token
     (snd (refresh_tokens_route example_session
          (Some \<lparr>tp_type = Some ''refresh'', tp_sub = 10, tp_jti = Some ''a1''\<rparr>)
          (datetime_of 739921 12 0) (datetime_of 739921 12 0) ''e5''))
     ''a1'' 10 (datetime_of 739921 12 0) = False"
proof -
  let ?now = "datetime_of 739921 12 0"
  let ?p = "\<lparr>tp_type = Some ''refresh'', tp_sub = 10, tp_jti = Some ''a1''\<rparr>"
  let ?r = "refresh_tokens_route example_session (Some ?p) ?now ?now ''e5''"
  have d: "distinct (map rt_jti (refresh_tokens example_session))" by code_simp
  note th = validate_refresh_token_iff [OF d, of _ _ ?now]
  have "\<exists>r \<in> set (refresh_tokens example_session).
      rt_jti r = ''a1'' \<and> rt_user_id r = 10 \<and> \<not> rt_revoked r \<and> \<not> rt_expires_at r < ?now"
    by code_simp
  with th [of "''a1''" 10] have a: "validate_refresh_token example_session ''a1'' 10 ?now = True"
    by blast
  have "\<not> (\<exists>r \<in> set (refresh_tokens example_session). rt_jti r = ''a1'' \<and> rt_user_id r = 11)"
    by code_simp
  with th [of "''a1''" 11] have b: "validate_refresh_token example_session ''a1'' 11 ?now = False"
    by blast
  have "\<exists>r \<in> set (refresh_tokens example_session).
      rt_jti r = ''b2'' \<and> rt_user_id r = 11 \<and> (rt_revoked r \<or> rt_expires_at r < ?now)"
    by code_simp
  with th [of "''b2''" 11] have c: "validate_refresh_token example_session ''b2'' 11 ?now = False"
    by blast
  have "\<exists>r \<in> set (refresh_tokens example_session).
      rt_jti r = ''c3'' \<and> rt_user_id r = 12 \<and> (rt_revoked r \<or> rt_expires_at r < ?now)"
    by code_simp
  with th [of "''c3''" 12] have e: "validate_refresh_token example_session ''c3'' 12 ?now = False"
    by blast
  have "\<not> (\<exists>r \<in> set (refresh_tokens example_session). rt_jti r = ''zz'' \<and> rt_user_id r = 10)"
    by code_simp
  with th [of "''zz''" 10] have f: "validate_refresh_token example_session ''zz'' 10 ?now = False"
    by blast
  have g: "fst ?r = Ok ''e5''" by code_simp
  then have "?r = (Ok ''e5'', snd ?r)" by (metis prod.collapse)
  moreover have "tp_jti ?p = Some ''a1''" by simp
  ultimately have h: "validate_refresh_token (snd ?r) ''a1'' 10 ?now = False"
    using th [of "''a1''" 10] by blast
  from a b c e f g h show ?thesis by simp
qed

subsection \<open>C6: decrypting what was encrypted\<close>

text \<open>
  C6: for every text \<open>s\<close>, the empty one and those with characters outside ASCII included,
  and every nonce of twelve bytes, \<open>encrypt\<close> returns a token and \<open>decrypt\<close> of that token
  returns \<open>s\<close>. The library functions are parameters; what is assumed of them is that on
  this input they do what their documentation says: AES-GCM encrypts, and decrypts what
  it encrypted under the same key and nonce; the Base64 text decodes to the bytes that
  were encoded; and the bytes that encode \<open>s\<close> decode to \<open>s\<close>.
\<close>

theorem decrypt_encrypt:
  assumes "length nonce = 12"
    and "aesgcm_encrypt lib key nonce (str_encode s) = Inr ct"
    and "aesgcm_decrypt lib key nonce ct = Inr (str_encode s)"
    and "bytes_decode lib (b64encode lib (nonce @ ct)) = Inr token"
    and "b64decode lib token = Inr (nonce @ ct)"
    and "bytes_decode lib (str_encode s) = Inr s"
  shows "encrypt lib key nonce (Some s) = Inr (Some token) \<and>
         decrypt lib key (Some token) = Inr (Some s)"
proof
  show "encrypt lib key nonce (Some s) = Inr (Some token)"
    using assms(2) assms(4) by (simp add: encrypt_def)
  have "take 12 (nonce @ ct) = nonce" "drop 12 (nonce @ ct) = ct"
    using assms(1) by simp_all
  then have "decrypt_try lib key token = Inr s"
    using assms(3) assms(5) assms(6) by (simp add: decrypt_try_def)
  then show "decrypt lib key (Some token) = Inr (Some s)"
    by (simp add: decrypt_def)
qed

text \<open>
  With the sample library and the key of the default secret: the empty text and a text
  with a two-byte character come back from their tokens.
\<close>

theorem decrypt_encrypt_witness:
  "encrypt sample_lib (KEY default_AES_ENCRYPTION_KEY) sample_nonce (Some [])
     = Inr (Some ''MDEyMzQ1Njc4OWFiMDEyMzQ1Njc4OWFiMTZieQ=='') \<and>
   decrypt sample_lib (KEY default_AES_ENCRYPTION_KEY) (Some ''MDEyMzQ1Njc4OWFiMDEyMzQ1Njc4OWFiMTZieQ=='')
     = Inr (Some []) \<and>
   encrypt sample_lib (KEY default_AES_ENCRYPTION_KEY) sample_nonce (Some sample_text)
     = Inr (Some ''MDEyMzQ1Njc4OWFiaMOpMDEyMzQ1Njc4OWFiMTZieQ=='') \<and>
   decrypt sample_lib (KEY default_AES_ENCRYPTION_KEY) (Some ''MDEyMzQ1Njc4OWFiaMOpMDEyMzQ1Njc4OWFiMTZieQ=='')
     = Inr (Some sample_text)"
proof -
  let ?key = "KEY default_AES_ENCRYPTION_KEY"
  have n: "length sample_nonce = 12" by code_simp
  have "aesgcm_encrypt sample_lib ?key sample_nonce (str_encode []) = Inr ''0123456789ab16by''"
    and "aesgcm_decrypt sample_lib ?key sample_nonce ''0123456789ab16by'' = Inr (str_encode [])"
    and "bytes_decode sample_lib (b64encode sample_lib (sample_nonce @ ''0123456789ab16by''))
      = Inr ''MDEyMzQ1Njc4OWFiMDEyMzQ1Njc4OWFiMTZieQ==''"
    and "b64decode sample_lib ''MDEyMzQ1Njc4OWFiMDEyMzQ1Njc4OWFiMTZieQ==''
      = Inr (sample_nonce @ ''0123456789ab16by'')"
    and "bytes_decode sample_lib (str_encode []) = Inr []"
    by code_simp+
  note a = decrypt_encrypt [OF n this]
  have "aesgcm_encrypt sample_lib ?key sample_nonce (str_encode sample_text)
      = Inr (sample_text @ ''0123456789ab16by'')"
    and "aesgcm_decrypt sample_lib ?key sample_nonce (sample_text @ ''0123456789ab16by'')
      = Inr (str_encode sample_text)"
    and "bytes_decode sample_lib
        (b64encode sample_lib (sample_nonce @ sample_text @ ''0123456789ab16by''))
      = Inr ''MDEyMzQ1Njc4OWFiaMOpMDEyMzQ1Njc4OWFiMTZieQ==''"
    and "b64decode sample_lib ''MDEyMzQ1Njc4OWFiaMOpMDEyMzQ1Njc4OWFiMTZieQ==''
      = Inr (sample_nonce @ sample_text @ ''0123456789ab16by'')"
    and "bytes_decode sample_lib (str_encode sample_text) = Inr sample_text"
    by code_simp+
  note b = decrypt_encrypt [OF n this]
  from a b show ?thesis by simp
qed

subsection \<open>C7: decrypt fails closed\<close>

text \<open>
  C7: \<open>encrypt\<close> of \<^verbatim>\<open>None\<close> and \<open>decrypt\<close> of \<^verbatim>\<open>None\<close> are \<^verbatim>\<open>None\<close>; \<open>decrypt\<close> never raises,
  whatever the token; and whenever a step of it raises, be it the Base64 decoding (a
  string that is not valid Base64), the decryption (a nonce that a truncated token leaves
  too short, data shorter than a tag, a tag that does not verify) or the decoding of the
  plaintext, the result is \<^verbatim>\<open>None\<close>. A text is returned only when all three steps
  succeeded.
\<close>

theorem decrypt_fails_closed:
  "encrypt lib key nonce None = Inr None \<and>
   decrypt lib key None = Inr None \<and>
   (\<exists>r. decrypt lib key token = Inr r) \<and>
   (\<forall>t e. b64decode lib t = Inl e \<longrightarrow> decrypt lib key (Some t) = Inr None) \<and>
   (\<forall>t raw e. b64decode lib t = Inr raw \<and>
        aesgcm_decrypt lib key (take 12 raw) (drop 12 raw) = Inl e \<longrightarrow>
        decrypt lib key (Some t) = Inr None) \<and>
   (\<forall>t raw pt e. b64decode lib t = Inr raw \<and>
        aesgcm_decrypt lib key (take 12 raw) (drop 12 raw) = Inr pt \<and>
        bytes_decode lib pt = Inl e \<longrightarrow>
        decrypt lib key (Some t) = Inr None) \<and>
   (\<forall>t s. decrypt lib key (Some t) = Inr (Some s) \<longrightarrow>
        (\<exists>raw pt. b64decode lib t = Inr raw \<and>
           aesgcm_decrypt lib key (take 12 raw) (drop 12 raw) = Inr pt \<and>
           bytes_decode lib pt = Inr s))"
proof (intro conjI allI impI)
  show "encrypt lib key nonce None = Inr None" by (simp add: encrypt_def)
  show "decrypt lib key None = Inr None" by (simp add: decrypt_def)
  show "\<exists>r. decrypt lib key token = Inr r"
    by (simp add: decrypt_def split: option.splits sum.splits)
  show "decrypt lib key (Some t) = Inr None" if "b64decode lib t = Inl e" for t e
    using that by (simp add: decrypt_def decrypt_try_def)
  show "decrypt lib key (Some t) = Inr None"
    if "b64decode lib t = Inr raw \<and> aesgcm_decrypt lib key (take 12 raw) (drop 12 raw) = Inl e"
    for t raw e
    using that by (simp add: decrypt_def decrypt_try_def)
  show "decrypt lib key (Some t) = Inr None"
    if "b64decode lib t = Inr raw \<and> aesgcm_decrypt lib key (take 12 raw) (drop 12 raw) = Inr pt \<and>
        bytes_decode lib pt = Inl e"
    for t raw pt e
    using that by (simp add: decrypt_def decrypt_try_def)
  show "\<exists>raw pt. b64decode lib t = Inr raw \<and>
           aesgcm_decrypt lib key (take 12 raw) (drop 12 raw) = Inr pt \<and>
           bytes_decode lib pt = Inr s"
    if "decrypt lib key (Some t) = Inr (Some s)" for t s
    using that by (auto simp: decrypt_def decrypt_try_def Let_def split: sum.splits)
qed

text \<open>
  With the sample library: a string outside the Base64 alphabet, a token cut after its
  first eight characters, the token of the sample text with one character of the tag
  changed, and a token whose plaintext is not well-formed UTF-8 all give \<^verbatim>\<open>None\<close>.
\<close>

theorem decrypt_fails_closed_witness:
  "decrypt sample_lib (KEY default_AES_ENCRYPTION_KEY) (Some ''not base64!'') = Inr None \<and>
   decrypt sample_lib (KEY default_AES_ENCRYPTION_KEY) (Some ''MDEyMzQ1'') = Inr None \<and>
   decrypt sample_lib (KEY default_AES_ENCRYPTION_KEY)
     (Some ''MDEyMzQ1Njc4OWFiaMOpMDEyMzQ1Njc4OWFiMTZieg=='') = Inr None \<and>
   decrypt sample_lib (KEY default_AES_ENCRYPTION_KEY)
     (Some ''MDEyMzQ1Njc4OWFiw2EwMTIzNDU2Nzg5YWIxNmJ5'') = Inr None \<and>
   decrypt sample_lib (KEY default_AES_ENCRYPTION_KEY) None = Inr None"
proof -
  let ?key = "KEY default_AES_ENCRYPTION_KEY"
  note th = decrypt_fails_closed [of sample_lib ?key sample_nonce None]
  have "b64decode sample_lib ''not base64!'' = Inl BinasciiError" by code_simp
  with th have a: "decrypt sample_lib ?key (Some ''not base64!'') = Inr None" by blast
  have "b64decode sample_lib ''MDEyMzQ1'' = Inr ''012345''"
    and "aesgcm_decrypt sample_lib ?key (take 12 ''012345'') (drop 12 ''012345'')
      = Inl (ValueError ''Nonce must be between 8 and 128 bytes'')"
    by code_simp+
  with th have b: "decrypt sample_lib ?key (Some ''MDEyMzQ1'') = Inr None" by blast
  have "b64decode sample_lib ''MDEyMzQ1Njc4OWFiaMOpMDEyMzQ1Njc4OWFiMTZieg==''
      = Inr (sample_nonce @ sample_text @ ''0123456789ab16bz'')"
    and "aesgcm_decrypt sample_lib ?key
        (take 12 (sample_nonce @ sample_text @ ''0123456789ab16bz''))
        (drop 12 (sample_nonce @ sample_text @ ''0123456789ab16bz'')) = Inl InvalidTag"
    by code_simp+
  with th have c: "decrypt sample_lib ?key
      (Some ''MDEyMzQ1Njc4OWFiaMOpMDEyMzQ1Njc4OWFiMTZieg=='') = Inr None"
    by blast
  have "b64decode sample_lib ''MDEyMzQ1Njc4OWFiw2EwMTIzNDU2Nzg5YWIxNmJ5''
      = Inr (sample_nonce @ [CHR 0xC3, CHR ''a''] @ ''0123456789ab16by'')"
    and "aesgcm_decrypt sample_lib ?key
        (take 12 (sample_nonce @ [CHR 0xC3, CHR ''a''] @ ''0123456789ab16by''))
        (drop 12 (sample_nonce @ [CHR 0xC3, CHR ''a''] @ ''0123456789ab16by''))
      = Inr [CHR 0xC3, CHR ''a'']"
    and "bytes_decode sample_lib [CHR 0xC3, CHR ''a''] = Inl UnicodeDecodeError"
    by code_simp+
  with th have d: "decrypt sample_lib ?key
      (Some ''MDEyMzQ1Njc4OWFiw2EwMTIzNDU2Nzg5YWIxNmJ5'') = Inr None"
    by blast
  from th have e: "decrypt sample_lib ?key None = Inr None" by blast
  from a b c d e show ?thesis by simp
qed

end
